theory Spec2Isabelle
  imports Main "HOL-Library.Word"
begin

section \<open>Fatal outcomes\<close>

text \<open>
  The operations of \<^verbatim>\<open>shared-function-info.cc\<close> either return or abort the process.
  \<^verbatim>\<open>UNREACHABLE()\<close> aborts in every build, a failed \<^verbatim>\<open>DCHECK\<close> aborts in a debug
  build only. A cast to the wrong object type and an access outside an array are undefined
  behaviour in C++; the model reports them as fatal outcomes of their own.
\<close>

datatype fatal = UNREACHABLE | DCHECK_FAILED | BAD_CAST | OUT_OF_BOUNDS

definition and_then :: "fatal + 'a \<Rightarrow> ('a \<Rightarrow> fatal + 'b) \<Rightarrow> fatal + 'b" where
  "and_then m f = (case m of Inl e \<Rightarrow> Inl e | Inr x \<Rightarrow> f x)"

text \<open>\<^verbatim>\<open>DCHECK(c); k\<close>: in a debug build a false \<open>c\<close> aborts, otherwise \<open>k\<close> runs.\<close>

definition DCHECK :: "bool \<Rightarrow> bool \<Rightarrow> fatal + 'a \<Rightarrow> fatal + 'a" where
  "DCHECK dbg c k = (if dbg \<and> \<not> c then Inl DCHECK_FAILED else k)"

section \<open>Heap objects\<close>

record Code =
  code_address :: nat
  is_interpreter_trampoline_builtin :: bool

record BytecodeArray =
  bytecode_length :: int

record UncompiledData =
  uncompiled_inferred_name :: string
  start_position :: int
  end_position :: int

record WasmFunction =
  code_offset :: "32 word"
  code_end_offset :: "32 word"

text \<open>
  \<open>module_functions\<close> is \<^verbatim>\<open>instance().module()->functions\<close>, the per-function table of
  the module the exported function belongs to.
\<close>

record WasmExportedFunctionData =
  wrapper_code :: Code
  module_functions :: "WasmFunction list"
  function_index :: int

record InterpreterData =
  bytecode_array :: BytecodeArray
  interpreter_trampoline :: Code

text \<open>
  The \<^verbatim>\<open>function_data\<close> slot holds a tagged value: a Smi or a heap object of one of the
  instance types that \<^verbatim>\<open>GetCode\<close> tests for. \<open>OtherObject\<close> stands for a heap object of
  any other type. The second argument of \<open>UncompiledDataWithPreparseData\<close> is the
  reference to the attached \<^verbatim>\<open>PreparseData\<close>.
\<close>

datatype FunctionData =
    Smi int
  | BytecodeArrayObject BytecodeArray
  | AsmWasmData
  | UncompiledDataWithoutPreparseData UncompiledData
  | UncompiledDataWithPreparseData UncompiledData nat
  | FunctionTemplateInfo
  | WasmExportedFunctionDataObject WasmExportedFunctionData
  | InterpreterDataObject InterpreterData
  | WasmJSFunctionData Code
  | WasmCapiFunctionData Code
  | OtherObject nat

text \<open>
  A scope descriptor. \<open>PositionInfo\<close> is \<open>None\<close> when \<^verbatim>\<open>HasPositionInfo()\<close> is false,
  \<open>FunctionName\<close> and \<open>InferredFunctionName\<close> likewise; \<open>OuterScopeInfo\<close> is the
  reference to the outer descriptor when \<^verbatim>\<open>HasOuterScopeInfo()\<close>.
\<close>

record ScopeInfo =
  PositionInfo :: "(int \<times> int) option"
  FunctionName :: "string option"
  InferredFunctionName :: "string option"
  OuterScopeInfo :: "nat option"

datatype NameOrScopeInfo =
    kNoSharedNameSentinel
  | NameString string
  | ScopeInfoObject ScopeInfo

datatype OuterScopeInfoOrFeedbackMetadata =
    the_hole_value
  | OuterScopeInfoRef nat
  | FeedbackMetadataRef nat

datatype HeapObject =
    undefined_value
  | ScriptObject nat
  | SharedFunctionInfoObject nat

record DebugInfo =
  debug_HasBreakInfo :: bool
  debug_BreakAtEntry :: bool
  debug_HasCoverageInfo :: bool

text \<open>
  The record itself. \<open>script\<close> and \<open>debug_info\<close> are the two readings of the
  \<^verbatim>\<open>script_or_debug_info\<close> slot; the remaining fields are the bits of \<^verbatim>\<open>flags\<close> and
  \<^verbatim>\<open>flags2\<close> that the operations below read or write. \<open>disabled_optimization_reason\<close>
  is the \<^verbatim>\<open>BailoutReason\<close>, with 0 for \<^verbatim>\<open>kNoReason\<close>.
\<close>

record SharedFunctionInfo =
  function_data :: FunctionData
  name_or_scope_info :: NameOrScopeInfo
  raw_outer_scope_info_or_feedback_metadata :: OuterScopeInfoOrFeedbackMetadata
  script :: HeapObject
  debug_info :: "DebugInfo option"
  expected_nof_properties :: "8 word"
  are_properties_final :: bool
  is_class_constructor :: bool
  disabled_optimization_reason :: nat
  has_reported_binary_coverage :: bool

section \<open>The host environment\<close>

text \<open>
  What the file takes from the isolate, the flags and the headers it includes: the builtin
  table with the ids of the builtins it names, the build mode, the feature flags, the
  constant \<^verbatim>\<open>kNoSourcePosition\<close>, \<^verbatim>\<open>base::hash_combine\<close> and the eligibility
  predicate \<^verbatim>\<open>CanDiscardCompiled\<close>. None of them is defined in the file, so they are
  parameters of the model.
\<close>

record Isolate =
  DEBUG :: bool
  builtin :: "int \<Rightarrow> Code"
  kInterpreterEntryTrampoline :: int
  kInstantiateAsmJs :: int
  kCompileLazy :: int
  kHandleApiCall :: int
  is_precise_binary_code_coverage :: bool
  FLAG_max_inlined_bytecode_size :: int
  kNoSourcePosition :: int
  hash_combine :: "int \<Rightarrow> int \<Rightarrow> 64 word"
  CanDiscardCompiled :: "SharedFunctionInfo \<Rightarrow> bool"

section \<open>Inline accessors\<close>

text \<open>
  Modelled from the spec: the type predicates and casts of
  \<^verbatim>\<open>shared-function-info-inl.h\<close>, which is not part of the sources at hand. Each
  predicate tests the active variant of the executable payload (exactly one variant is
  active); the assertions inside \<^verbatim>\<open>GetCode\<close> pair each of them with the instance-type
  test of the same name. A cast applied to another variant is \<open>BAD_CAST\<close>.
\<close>

fun IsSmi :: "FunctionData \<Rightarrow> bool" where
  "IsSmi (Smi n) = True"
| "IsSmi _ = False"

fun IsBytecodeArray :: "FunctionData \<Rightarrow> bool" where
  "IsBytecodeArray (BytecodeArrayObject b) = True"
| "IsBytecodeArray _ = False"

fun IsAsmWasmData :: "FunctionData \<Rightarrow> bool" where
  "IsAsmWasmData AsmWasmData = True"
| "IsAsmWasmData _ = False"

fun IsUncompiledDataWithPreparseData :: "FunctionData \<Rightarrow> bool" where
  "IsUncompiledDataWithPreparseData (UncompiledDataWithPreparseData u p) = True"
| "IsUncompiledDataWithPreparseData _ = False"

fun IsUncompiledData :: "FunctionData \<Rightarrow> bool" where
  "IsUncompiledData (UncompiledDataWithoutPreparseData u) = True"
| "IsUncompiledData (UncompiledDataWithPreparseData u p) = True"
| "IsUncompiledData _ = False"

fun IsFunctionTemplateInfo :: "FunctionData \<Rightarrow> bool" where
  "IsFunctionTemplateInfo FunctionTemplateInfo = True"
| "IsFunctionTemplateInfo _ = False"

fun IsWasmExportedFunctionData :: "FunctionData \<Rightarrow> bool" where
  "IsWasmExportedFunctionData (WasmExportedFunctionDataObject w) = True"
| "IsWasmExportedFunctionData _ = False"

fun IsInterpreterData :: "FunctionData \<Rightarrow> bool" where
  "IsInterpreterData (InterpreterDataObject d) = True"
| "IsInterpreterData _ = False"

fun IsWasmJSFunctionData :: "FunctionData \<Rightarrow> bool" where
  "IsWasmJSFunctionData (WasmJSFunctionData c) = True"
| "IsWasmJSFunctionData _ = False"

fun IsWasmCapiFunctionData :: "FunctionData \<Rightarrow> bool" where
  "IsWasmCapiFunctionData (WasmCapiFunctionData c) = True"
| "IsWasmCapiFunctionData _ = False"

definition HasBuiltinId :: "SharedFunctionInfo \<Rightarrow> bool" where
  "HasBuiltinId r = IsSmi (function_data r)"

definition HasBytecodeArray :: "SharedFunctionInfo \<Rightarrow> bool" where
  "HasBytecodeArray r =
     (IsBytecodeArray (function_data r) \<or> IsInterpreterData (function_data r))"

definition HasAsmWasmData :: "SharedFunctionInfo \<Rightarrow> bool" where
  "HasAsmWasmData r = IsAsmWasmData (function_data r)"

definition HasUncompiledData :: "SharedFunctionInfo \<Rightarrow> bool" where
  "HasUncompiledData r = IsUncompiledData (function_data r)"

definition HasUncompiledDataWithPreparseData :: "SharedFunctionInfo \<Rightarrow> bool" where
  "HasUncompiledDataWithPreparseData r = IsUncompiledDataWithPreparseData (function_data r)"

definition IsApiFunction :: "SharedFunctionInfo \<Rightarrow> bool" where
  "IsApiFunction r = IsFunctionTemplateInfo (function_data r)"

definition HasWasmExportedFunctionData :: "SharedFunctionInfo \<Rightarrow> bool" where
  "HasWasmExportedFunctionData r = IsWasmExportedFunctionData (function_data r)"

definition HasWasmJSFunctionData :: "SharedFunctionInfo \<Rightarrow> bool" where
  "HasWasmJSFunctionData r = IsWasmJSFunctionData (function_data r)"

definition HasWasmCapiFunctionData :: "SharedFunctionInfo \<Rightarrow> bool" where
  "HasWasmCapiFunctionData r = IsWasmCapiFunctionData (function_data r)"

definition builtin_id :: "SharedFunctionInfo \<Rightarrow> fatal + int" where
  "builtin_id r = (case function_data r of Smi n \<Rightarrow> Inr n | _ \<Rightarrow> Inl BAD_CAST)"

definition uncompiled_data :: "SharedFunctionInfo \<Rightarrow> fatal + UncompiledData" where
  "uncompiled_data r =
     (case function_data r of
        UncompiledDataWithoutPreparseData u \<Rightarrow> Inr u
      | UncompiledDataWithPreparseData u p \<Rightarrow> Inr u
      | _ \<Rightarrow> Inl BAD_CAST)"

definition InterpreterTrampoline :: "SharedFunctionInfo \<Rightarrow> fatal + Code" where
  "InterpreterTrampoline r =
     (case function_data r of
        InterpreterDataObject d \<Rightarrow> Inr (interpreter_trampoline d)
      | _ \<Rightarrow> Inl BAD_CAST)"

section \<open>Casts defined in the file\<close>

definition wasm_exported_function_data ::
  "Isolate \<Rightarrow> SharedFunctionInfo \<Rightarrow> fatal + WasmExportedFunctionData" where
  "wasm_exported_function_data isolate r =
     DCHECK (DEBUG isolate) (HasWasmExportedFunctionData r)
       (case function_data r of
          WasmExportedFunctionDataObject w \<Rightarrow> Inr w
        | _ \<Rightarrow> Inl BAD_CAST)"

definition wasm_js_function_data :: "Isolate \<Rightarrow> SharedFunctionInfo \<Rightarrow> fatal + Code" where
  "wasm_js_function_data isolate r =
     DCHECK (DEBUG isolate) (HasWasmJSFunctionData r)
       (case function_data r of WasmJSFunctionData c \<Rightarrow> Inr c | _ \<Rightarrow> Inl BAD_CAST)"

definition wasm_capi_function_data :: "Isolate \<Rightarrow> SharedFunctionInfo \<Rightarrow> fatal + Code" where
  "wasm_capi_function_data isolate r =
     DCHECK (DEBUG isolate) (HasWasmCapiFunctionData r)
       (case function_data r of WasmCapiFunctionData c \<Rightarrow> Inr c | _ \<Rightarrow> Inl BAD_CAST)"

section \<open>GetCode\<close>

text \<open>
  The chain of instance-type tests of \<^verbatim>\<open>SharedFunctionInfo::GetCode\<close>, in the order of
  the source. \<^verbatim>\<open>DCHECK(code.IsCode())\<close> holds by the type of the trampoline slot.
\<close>

definition GetCode :: "Isolate \<Rightarrow> SharedFunctionInfo \<Rightarrow> fatal + Code" where
  "GetCode isolate r =
     (let data = function_data r in
      if IsSmi data then
        DCHECK (DEBUG isolate) (HasBuiltinId r)
          (and_then (builtin_id r) (\<lambda>n. Inr (builtin isolate n)))
      else if IsBytecodeArray data then
        DCHECK (DEBUG isolate) (HasBytecodeArray r)
          (Inr (builtin isolate (kInterpreterEntryTrampoline isolate)))
      else if IsAsmWasmData data then
        DCHECK (DEBUG isolate) (HasAsmWasmData r)
          (Inr (builtin isolate (kInstantiateAsmJs isolate)))
      else if IsUncompiledData data then
        DCHECK (DEBUG isolate) (HasUncompiledData r)
          (Inr (builtin isolate (kCompileLazy isolate)))
      else if IsFunctionTemplateInfo data then
        DCHECK (DEBUG isolate) (IsApiFunction r)
          (Inr (builtin isolate (kHandleApiCall isolate)))
      else if IsWasmExportedFunctionData data then
        DCHECK (DEBUG isolate) (HasWasmExportedFunctionData r)
          (and_then (wasm_exported_function_data isolate r) (\<lambda>w. Inr (wrapper_code w)))
      else if IsInterpreterData data then
        and_then (InterpreterTrampoline r) (\<lambda>code.
          DCHECK (DEBUG isolate) (is_interpreter_trampoline_builtin code) (Inr code))
      else if IsWasmJSFunctionData data then
        wasm_js_function_data isolate r
      else if IsWasmCapiFunctionData data then
        wasm_capi_function_data isolate r
      else Inl UNREACHABLE)"

text \<open>
  The outcome table of the entry-point dispatcher as the specification words it, one row
  per payload variant.
\<close>

fun ResolveEntryPoint_spec :: "Isolate \<Rightarrow> FunctionData \<Rightarrow> fatal + Code" where
  "ResolveEntryPoint_spec isolate (Smi n) = Inr (builtin isolate n)"
| "ResolveEntryPoint_spec isolate (BytecodeArrayObject b) =
     Inr (builtin isolate (kInterpreterEntryTrampoline isolate))"
| "ResolveEntryPoint_spec isolate AsmWasmData = Inr (builtin isolate (kInstantiateAsmJs isolate))"
| "ResolveEntryPoint_spec isolate (UncompiledDataWithoutPreparseData u) =
     Inr (builtin isolate (kCompileLazy isolate))"
| "ResolveEntryPoint_spec isolate (UncompiledDataWithPreparseData u p) =
     Inr (builtin isolate (kCompileLazy isolate))"
| "ResolveEntryPoint_spec isolate FunctionTemplateInfo = Inr (builtin isolate (kHandleApiCall isolate))"
| "ResolveEntryPoint_spec isolate (WasmExportedFunctionDataObject w) = Inr (wrapper_code w)"
| "ResolveEntryPoint_spec isolate (WasmJSFunctionData c) = Inr c"
| "ResolveEntryPoint_spec isolate (WasmCapiFunctionData c) = Inr c"
| "ResolveEntryPoint_spec isolate (InterpreterDataObject d) =
     (if DEBUG isolate \<and> \<not> is_interpreter_trampoline_builtin (interpreter_trampoline d)
      then Inl DCHECK_FAILED else Inr (interpreter_trampoline d))"
| "ResolveEntryPoint_spec isolate (OtherObject k) = Inl UNREACHABLE"

section \<open>Source positions\<close>

text \<open>
  Modelled from the spec: the methods of the scope descriptor (\<^verbatim>\<open>ScopeInfo\<close>), defined
  outside the sources at hand. A descriptor optionally carries source position data; reading
  or writing the positions of one that carries none is outside the object.
\<close>

definition HasPositionInfo :: "ScopeInfo \<Rightarrow> bool" where
  "HasPositionInfo info = (PositionInfo info \<noteq> None)"

definition ScopeInfo_StartPosition :: "ScopeInfo \<Rightarrow> fatal + int" where
  "ScopeInfo_StartPosition info =
     (case PositionInfo info of Some p \<Rightarrow> Inr (fst p) | None \<Rightarrow> Inl OUT_OF_BOUNDS)"

definition ScopeInfo_EndPosition :: "ScopeInfo \<Rightarrow> fatal + int" where
  "ScopeInfo_EndPosition info =
     (case PositionInfo info of Some p \<Rightarrow> Inr (snd p) | None \<Rightarrow> Inl OUT_OF_BOUNDS)"

definition SetPositionInfo :: "ScopeInfo \<Rightarrow> int \<Rightarrow> int \<Rightarrow> fatal + ScopeInfo" where
  "SetPositionInfo info start_pos end_pos =
     (case PositionInfo info of
        Some p \<Rightarrow> Inr (info\<lparr>PositionInfo := Some (start_pos, end_pos)\<rparr>)
      | None \<Rightarrow> Inl OUT_OF_BOUNDS)"

text \<open>
  The opening test shared by \<^verbatim>\<open>StartPosition\<close> and \<^verbatim>\<open>EndPosition\<close>:
  \<^verbatim>\<open>maybe_scope_info.IsScopeInfo()\<close> and then \<^verbatim>\<open>info.HasPositionInfo()\<close>; the result
  is the descriptor when both hold.
\<close>

fun scope_info_with_positions :: "NameOrScopeInfo \<Rightarrow> ScopeInfo option" where
  "scope_info_with_positions (ScopeInfoObject info) =
     (if HasPositionInfo info then Some info else None)"
| "scope_info_with_positions _ = None"

text \<open>
  \<^verbatim>\<open>instance.module()->functions[func_index]\<close>: an index into a vector, undefined outside
  its bounds.
\<close>

definition functions_at :: "WasmFunction list \<Rightarrow> int \<Rightarrow> fatal + WasmFunction" where
  "functions_at fs func_index =
     (if 0 \<le> func_index \<and> func_index < int (length fs)
      then Inr (fs ! nat func_index) else Inl OUT_OF_BOUNDS)"

text \<open>
  \<^verbatim>\<open>DCHECK_IMPLIES(HasBuiltinId(), builtin_id() != Builtins::kCompileLazy)\<close>, as the
  condition it checks.
\<close>

definition not_compile_lazy :: "Isolate \<Rightarrow> SharedFunctionInfo \<Rightarrow> bool" where
  "not_compile_lazy isolate r =
     (if HasBuiltinId r then builtin_id r \<noteq> Inr (kCompileLazy isolate) else True)"

definition StartPosition :: "Isolate \<Rightarrow> SharedFunctionInfo \<Rightarrow> fatal + int" where
  "StartPosition isolate r =
     (case scope_info_with_positions (name_or_scope_info r) of
        Some info \<Rightarrow> ScopeInfo_StartPosition info
      | None \<Rightarrow>
          if HasUncompiledData r then
            and_then (uncompiled_data r) (\<lambda>u. Inr (start_position u))
          else if IsApiFunction r \<or> HasBuiltinId r then
            DCHECK (DEBUG isolate) (not_compile_lazy isolate r) (Inr 0)
          else if HasWasmExportedFunctionData r then
            and_then (wasm_exported_function_data isolate r) (\<lambda>w.
              and_then (functions_at (module_functions w) (function_index w)) (\<lambda>function.
                Inr (sint (code_offset function))))
          else Inr (kNoSourcePosition isolate))"

definition EndPosition :: "Isolate \<Rightarrow> SharedFunctionInfo \<Rightarrow> fatal + int" where
  "EndPosition isolate r =
     (case scope_info_with_positions (name_or_scope_info r) of
        Some info \<Rightarrow> ScopeInfo_EndPosition info
      | None \<Rightarrow>
          if HasUncompiledData r then
            and_then (uncompiled_data r) (\<lambda>u. Inr (end_position u))
          else if IsApiFunction r \<or> HasBuiltinId r then
            DCHECK (DEBUG isolate) (not_compile_lazy isolate r) (Inr 0)
          else if HasWasmExportedFunctionData r then
            and_then (wasm_exported_function_data isolate r) (\<lambda>w.
              and_then (functions_at (module_functions w) (function_index w)) (\<lambda>function.
                Inr (sint (code_end_offset function))))
          else Inr (kNoSourcePosition isolate))"

definition SourceSize :: "Isolate \<Rightarrow> SharedFunctionInfo \<Rightarrow> fatal + int" where
  "SourceSize isolate r =
     and_then (EndPosition isolate r) (\<lambda>e.
       and_then (StartPosition isolate r) (\<lambda>s. Inr (e - s)))"

text \<open>
  Modelled from the spec: \<^verbatim>\<open>ClearPreparseData\<close>, an inline accessor outside the sources at
  hand, drops the pre-parse cache of a deferred-parse summary in place and keeps its
  name and positions.
\<close>

definition ClearPreparseData :: "Isolate \<Rightarrow> SharedFunctionInfo \<Rightarrow> fatal + SharedFunctionInfo" where
  "ClearPreparseData isolate r =
     DCHECK (DEBUG isolate) (HasUncompiledDataWithPreparseData r)
       (case function_data r of
          UncompiledDataWithPreparseData u p \<Rightarrow>
            Inr (r\<lparr>function_data := UncompiledDataWithoutPreparseData u\<rparr>)
        | _ \<Rightarrow> Inl BAD_CAST)"

text \<open>
  \<^verbatim>\<open>uncompiled_data().set_start_position(..)\<close> and \<^verbatim>\<open>set_end_position(..)\<close>: a write
  into the deferred-parse summary the payload refers to.
\<close>

definition update_uncompiled_data ::
  "(UncompiledData \<Rightarrow> UncompiledData) \<Rightarrow> SharedFunctionInfo \<Rightarrow> fatal + SharedFunctionInfo" where
  "update_uncompiled_data f r =
     (case function_data r of
        UncompiledDataWithoutPreparseData u \<Rightarrow>
          Inr (r\<lparr>function_data := UncompiledDataWithoutPreparseData (f u)\<rparr>)
      | UncompiledDataWithPreparseData u p \<Rightarrow>
          Inr (r\<lparr>function_data := UncompiledDataWithPreparseData (f u) p\<rparr>)
      | _ \<Rightarrow> Inl BAD_CAST)"

definition SetPosition ::
  "Isolate \<Rightarrow> SharedFunctionInfo \<Rightarrow> int \<Rightarrow> int \<Rightarrow> fatal + SharedFunctionInfo" where
  "SetPosition isolate r start_pos end_pos =
     (case name_or_scope_info r of
        ScopeInfoObject info \<Rightarrow>
          if HasPositionInfo info then
            and_then (SetPositionInfo info start_pos end_pos) (\<lambda>info'.
              Inr (r\<lparr>name_or_scope_info := ScopeInfoObject info'\<rparr>))
          else Inr r
      | _ \<Rightarrow>
          if HasUncompiledData r then
            and_then
              (if HasUncompiledDataWithPreparseData r then ClearPreparseData isolate r
               else Inr r) (\<lambda>r1.
            and_then (update_uncompiled_data (\<lambda>u. u\<lparr>start_position := start_pos\<rparr>) r1) (\<lambda>r2.
              update_uncompiled_data (\<lambda>u. u\<lparr>end_position := end_pos\<rparr>) r2))
          else Inl UNREACHABLE)"

text \<open>
  The position precedence as the specification words it: the positions embedded in a scope
  descriptor in the name slot, else those of a deferred-parse summary, else 0 for a host-API
  function or a builtin id, else the entry of the foreign module's per-function table, else
  the no-position sentinel.
\<close>

fun embedded_position_data :: "NameOrScopeInfo \<Rightarrow> (int \<times> int) option" where
  "embedded_position_data (ScopeInfoObject info) = PositionInfo info"
| "embedded_position_data _ = None"

definition ResolvePosition_spec ::
  "Isolate \<Rightarrow> NameOrScopeInfo \<Rightarrow> FunctionData \<Rightarrow> fatal + int \<times> int" where
  "ResolvePosition_spec isolate name payload =
     (case embedded_position_data name of
        Some p \<Rightarrow> Inr p
      | None \<Rightarrow>
        (case payload of
           UncompiledDataWithoutPreparseData u \<Rightarrow> Inr (start_position u, end_position u)
         | UncompiledDataWithPreparseData u c \<Rightarrow> Inr (start_position u, end_position u)
         | FunctionTemplateInfo \<Rightarrow> Inr (0, 0)
         | Smi n \<Rightarrow>
             if DEBUG isolate \<and> n = kCompileLazy isolate then Inl DCHECK_FAILED
             else Inr (0, 0)
         | WasmExportedFunctionDataObject w \<Rightarrow>
             if 0 \<le> function_index w \<and> function_index w < int (length (module_functions w))
             then Inr (sint (code_offset (module_functions w ! nat (function_index w))),
                       sint (code_end_offset (module_functions w ! nat (function_index w))))
             else Inl OUT_OF_BOUNDS
         | _ \<Rightarrow> Inr (kNoSourcePosition isolate, kNoSourcePosition isolate)))"

section \<open>Names\<close>

text \<open>
  Modelled from the spec: \<^verbatim>\<open>Name\<close> and \<^verbatim>\<open>inferred_name\<close>, inline accessors outside the
  sources at hand. The name slot is the no-name sentinel, a resolved name, or a scope
  descriptor; a descriptor answers with the names it carries, and a record whose slot is
  no descriptor takes its inferred name from its deferred-parse summary. A missing name is
  the empty string.
\<close>

definition Name :: "SharedFunctionInfo \<Rightarrow> string" where
  "Name r =
     (case name_or_scope_info r of
        kNoSharedNameSentinel \<Rightarrow> []
      | NameString s \<Rightarrow> s
      | ScopeInfoObject info \<Rightarrow> (case FunctionName info of Some s \<Rightarrow> s | None \<Rightarrow> []))"

definition inferred_name :: "SharedFunctionInfo \<Rightarrow> string" where
  "inferred_name r =
     (case name_or_scope_info r of
        ScopeInfoObject info \<Rightarrow>
          (case InferredFunctionName info of Some s \<Rightarrow> s | None \<Rightarrow> [])
      | _ \<Rightarrow>
          (case uncompiled_data r of
             Inr u \<Rightarrow> uncompiled_inferred_name u
           | Inl e \<Rightarrow> []))"

definition DebugName :: "SharedFunctionInfo \<Rightarrow> string" where
  "DebugName r =
     (let function_name = Name r in
      if length function_name > 0 then function_name else inferred_name r)"

section \<open>Discarding compiled data\<close>

text \<open>
  Modelled from the spec: \<^verbatim>\<open>is_compiled\<close> and \<^verbatim>\<open>scope_info\<close>, inline accessors outside
  the sources at hand. A record is compiled unless its payload is a deferred-parse summary or
  the lazy-compile builtin; its scope descriptor is the one in the name slot, or the empty
  descriptor.
\<close>

definition is_compiled :: "Isolate \<Rightarrow> SharedFunctionInfo \<Rightarrow> bool" where
  "is_compiled isolate r =
     (function_data r \<noteq> Smi (kCompileLazy isolate) \<and> \<not> IsUncompiledData (function_data r))"

definition scope_info :: "SharedFunctionInfo \<Rightarrow> ScopeInfo" where
  "scope_info r =
     (case name_or_scope_info r of
        ScopeInfoObject info \<Rightarrow> info
      | _ \<Rightarrow> \<lparr>PositionInfo = None, FunctionName = None,
               InferredFunctionName = None, OuterScopeInfo = None\<rparr>)"

text \<open>
  \<^verbatim>\<open>DCHECK(outer_scope_info().IsScopeInfo() || outer_scope_info().IsTheHole())\<close>, as the
  condition it checks on the raw slot.
\<close>

fun IsScopeInfo_or_TheHole :: "OuterScopeInfoOrFeedbackMetadata \<Rightarrow> bool" where
  "IsScopeInfo_or_TheHole (FeedbackMetadataRef k) = False"
| "IsScopeInfo_or_TheHole _ = True"

text \<open>
  \<^verbatim>\<open>DiscardCompiledMetadata\<close>. The trace output under \<^verbatim>\<open>FLAG_trace_flush_bytecode\<close> and
  the collector's slot notification leave the record as it is and are not part of the state.
\<close>

definition DiscardCompiledMetadata ::
  "Isolate \<Rightarrow> SharedFunctionInfo \<Rightarrow> fatal + SharedFunctionInfo" where
  "DiscardCompiledMetadata isolate r =
     (if is_compiled isolate r then
        (let outer_scope_info =
           (case OuterScopeInfo (scope_info r) of
              Some a \<Rightarrow> OuterScopeInfoRef a
            | None \<Rightarrow> the_hole_value)
         in Inr (r\<lparr>raw_outer_scope_info_or_feedback_metadata := outer_scope_info\<rparr>))
      else
        DCHECK (DEBUG isolate)
          (IsScopeInfo_or_TheHole (raw_outer_scope_info_or_feedback_metadata r)) (Inr r))"

text \<open>
  \<^verbatim>\<open>factory()->NewUncompiledDataWithoutPreparseData(name, start, end)\<close> allocates a
  deferred-parse summary with exactly these three fields.
\<close>

definition NewUncompiledDataWithoutPreparseData :: "string \<Rightarrow> int \<Rightarrow> int \<Rightarrow> FunctionData" where
  "NewUncompiledDataWithoutPreparseData name start_pos end_pos =
     UncompiledDataWithoutPreparseData
       \<lparr>uncompiled_inferred_name = name, start_position = start_pos, end_position = end_pos\<rparr>"

definition DiscardCompiled :: "Isolate \<Rightarrow> SharedFunctionInfo \<Rightarrow> fatal + SharedFunctionInfo" where
  "DiscardCompiled isolate shared_info =
     DCHECK (DEBUG isolate) (CanDiscardCompiled isolate shared_info)
       (let inferred_name_val = inferred_name shared_info in
        and_then (StartPosition isolate shared_info) (\<lambda>start_pos.
        and_then (EndPosition isolate shared_info) (\<lambda>end_pos.
        and_then (DiscardCompiledMetadata isolate shared_info) (\<lambda>r1.
          if HasUncompiledDataWithPreparseData r1 then ClearPreparseData isolate r1
          else Inr (r1\<lparr>function_data :=
                 NewUncompiledDataWithoutPreparseData inferred_name_val start_pos end_pos\<rparr>)))))"

section \<open>Source units and their function tables\<close>

datatype MaybeObject = ClearedWeak | Weak HeapObject | Strong HeapObject

record Script =
  Script_id :: int
  shared_function_infos :: "MaybeObject list"
  Script_IsUserJavaScript :: bool

text \<open>
  The store: every address holds a source unit and a record, so that a reference never
  dangles. Two references are the same object exactly when their addresses are equal.
\<close>

record Heap =
  scripts :: "nat \<Rightarrow> Script"
  shared_infos :: "nat \<Rightarrow> SharedFunctionInfo"

fun IsScript :: "HeapObject \<Rightarrow> bool" where
  "IsScript (ScriptObject a) = True"
| "IsScript _ = False"

fun Script_cast :: "HeapObject \<Rightarrow> fatal + nat" where
  "Script_cast (ScriptObject a) = Inr a"
| "Script_cast _ = Inl BAD_CAST"

text \<open>
  Modelled from the spec: the source unit's function table (\<^verbatim>\<open>WeakFixedArray\<close>), a
  fixed-size, index-addressable table of weak slots read and written one slot at a time.
  Its accessors and the test \<^verbatim>\<open>GetHeapObjectIfWeak\<close> of a slot are defined outside the
  sources at hand; an index outside the table is \<open>OUT_OF_BOUNDS\<close>.
\<close>

definition WeakFixedArray_Get :: "MaybeObject list \<Rightarrow> int \<Rightarrow> fatal + MaybeObject" where
  "WeakFixedArray_Get list i =
     (if 0 \<le> i \<and> i < int (length list) then Inr (list ! nat i) else Inl OUT_OF_BOUNDS)"

definition WeakFixedArray_Set ::
  "MaybeObject list \<Rightarrow> int \<Rightarrow> MaybeObject \<Rightarrow> fatal + MaybeObject list" where
  "WeakFixedArray_Set list i v =
     (if 0 \<le> i \<and> i < int (length list) then Inr (list[nat i := v]) else Inl OUT_OF_BOUNDS)"

fun GetHeapObjectIfWeak :: "MaybeObject \<Rightarrow> HeapObject option" where
  "GetHeapObjectIfWeak (Weak obj) = Some obj"
| "GetHeapObjectIfWeak _ = None"

definition set_shared_function_infos :: "Heap \<Rightarrow> nat \<Rightarrow> MaybeObject list \<Rightarrow> Heap" where
  "set_shared_function_infos h a list =
     h\<lparr>scripts := (scripts h)(a := (scripts h a)\<lparr>shared_function_infos := list\<rparr>)\<rparr>"

text \<open>The block of \<^verbatim>\<open>SetScript\<close> under \<^verbatim>\<open>#ifdef DEBUG\<close>.\<close>

definition SetScript_debug_checks ::
  "Isolate \<Rightarrow> nat \<Rightarrow> MaybeObject list \<Rightarrow> int \<Rightarrow> fatal + unit" where
  "SetScript_debug_checks isolate this list function_literal_id =
     (if DEBUG isolate then
        DCHECK True (function_literal_id < int (length list))
          (and_then (WeakFixedArray_Get list function_literal_id) (\<lambda>maybe_object.
             case GetHeapObjectIfWeak maybe_object of
               Some heap_object \<Rightarrow>
                 DCHECK True (heap_object = SharedFunctionInfoObject this) (Inr ())
             | None \<Rightarrow> Inr ()))
      else Inr ())"

text \<open>
  \<^verbatim>\<open>SetScript\<close> on the record at address \<open>this\<close>. The record's source-unit reference is
  read with \<^verbatim>\<open>script()\<close> and written with \<^verbatim>\<open>set_script\<close>, the field \<open>script\<close> of the
  model.
\<close>

definition SetScript ::
  "Isolate \<Rightarrow> Heap \<Rightarrow> nat \<Rightarrow> HeapObject \<Rightarrow> int \<Rightarrow> bool \<Rightarrow> fatal + Heap" where
  "SetScript isolate h this script_object function_literal_id reset_preparsed_scope_data =
     (let r = shared_infos h this in
      if script r = script_object then Inr h
      else
        and_then
          (if reset_preparsed_scope_data \<and> HasUncompiledDataWithPreparseData r
           then ClearPreparseData isolate r else Inr r) (\<lambda>r1.
        and_then
          (if IsScript script_object then
             DCHECK (DEBUG isolate) (\<not> IsScript (script r1))
               (and_then (Script_cast script_object) (\<lambda>a.
                  let list = shared_function_infos (scripts h a) in
                  and_then (SetScript_debug_checks isolate this list function_literal_id) (\<lambda>u.
                  and_then (WeakFixedArray_Set list function_literal_id
                              (Weak (SharedFunctionInfoObject this))) (\<lambda>list'.
                    Inr (set_shared_function_infos h a list')))))
           else
             DCHECK (DEBUG isolate) (IsScript (script r1))
               (and_then (Script_cast (script r1)) (\<lambda>old_script.
                  let infos = shared_function_infos (scripts h old_script) in
                  if function_literal_id < int (length infos) then
                    and_then (WeakFixedArray_Get infos function_literal_id) (\<lambda>raw.
                      if GetHeapObjectIfWeak raw = Some (SharedFunctionInfoObject this) then
                        and_then (WeakFixedArray_Set infos function_literal_id
                                    (Strong undefined_value)) (\<lambda>infos'.
                          Inr (set_shared_function_infos h old_script infos'))
                      else Inr h)
                  else Inr h))) (\<lambda>h1.
          Inr (h1\<lparr>shared_infos := (shared_infos h1)(this := r1\<lparr>script := script_object\<rparr>)\<rparr>))))"

section \<open>Hash\<close>

definition Hash :: "Isolate \<Rightarrow> Heap \<Rightarrow> SharedFunctionInfo \<Rightarrow> fatal + 32 word" where
  "Hash isolate h r =
     and_then (StartPosition isolate r) (\<lambda>start_pos.
       and_then
         (if IsScript (script r)
          then and_then (Script_cast (script r)) (\<lambda>a. Inr (Script_id (scripts h a)))
          else Inr 0) (\<lambda>script_id.
         Inr (ucast (hash_combine isolate start_pos script_id))))"

section \<open>Inlineability\<close>

datatype Inlineability =
    kIsInlineable
  | kHasNoScript
  | kNeedsBinaryCoverage
  | kHasOptimizationDisabled
  | kIsBuiltin
  | kIsNotUserCode
  | kHasNoBytecode
  | kExceedsBytecodeLimit
  | kMayContainBreakPoints

text \<open>
  Modelled from the spec: \<^verbatim>\<open>optimization_disabled\<close>, \<^verbatim>\<open>IsUserJavaScript\<close> and
  \<^verbatim>\<open>GetBytecodeArray\<close>, inline accessors outside the sources at hand. Optimization is
  disabled when a reason is recorded; a function is user code when its source unit is; the
  bytecode program is the payload itself or the one interpreter-trampoline data wraps.
\<close>

definition optimization_disabled :: "SharedFunctionInfo \<Rightarrow> bool" where
  "optimization_disabled r = (disabled_optimization_reason r \<noteq> 0)"

definition IsUserJavaScript :: "Heap \<Rightarrow> SharedFunctionInfo \<Rightarrow> bool" where
  "IsUserJavaScript h r =
     (case script r of
        ScriptObject a \<Rightarrow> Script_IsUserJavaScript (scripts h a)
      | _ \<Rightarrow> False)"

definition GetBytecodeArray :: "SharedFunctionInfo \<Rightarrow> fatal + BytecodeArray" where
  "GetBytecodeArray r =
     (case function_data r of
        BytecodeArrayObject b \<Rightarrow> Inr b
      | InterpreterDataObject d \<Rightarrow> Inr (bytecode_array d)
      | _ \<Rightarrow> Inl BAD_CAST)"

definition HasBreakInfo :: "SharedFunctionInfo \<Rightarrow> bool" where
  "HasBreakInfo r =
     (case debug_info r of
        None \<Rightarrow> False
      | Some info \<Rightarrow> (let has_break_info = debug_HasBreakInfo info in has_break_info))"

definition GetInlineability :: "Isolate \<Rightarrow> Heap \<Rightarrow> SharedFunctionInfo \<Rightarrow> fatal + Inlineability" where
  "GetInlineability isolate h r =
     (if \<not> IsScript (script r) then Inr kHasNoScript
      else if is_precise_binary_code_coverage isolate \<and> \<not> has_reported_binary_coverage r
        then Inr kNeedsBinaryCoverage
      else if optimization_disabled r then Inr kHasOptimizationDisabled
      else if HasBuiltinId r then Inr kIsBuiltin
      else if \<not> IsUserJavaScript h r then Inr kIsNotUserCode
      else if \<not> HasBytecodeArray r then Inr kHasNoBytecode
      else
        and_then (GetBytecodeArray r) (\<lambda>b.
          if bytecode_length b > FLAG_max_inlined_bytecode_size isolate
            then Inr kExceedsBytecodeLimit
          else if HasBreakInfo r then Inr kMayContainBreakPoints
          else Inr kIsInlineable))"

text \<open>
  The ordered decision list as the specification words it: the first condition that holds
  decides, and the default applies when none does.
\<close>

fun first_match :: "(bool \<times> 'a) list \<Rightarrow> 'a \<Rightarrow> 'a" where
  "first_match [] d = d"
| "first_match ((c, x) # rest) d = (if c then x else first_match rest d)"

definition exceeds_bytecode_limit :: "Isolate \<Rightarrow> SharedFunctionInfo \<Rightarrow> bool" where
  "exceeds_bytecode_limit isolate r =
     (case GetBytecodeArray r of
        Inr b \<Rightarrow> bytecode_length b > FLAG_max_inlined_bytecode_size isolate
      | Inl e \<Rightarrow> False)"

definition Inlineability_spec :: "Isolate \<Rightarrow> Heap \<Rightarrow> SharedFunctionInfo \<Rightarrow> Inlineability" where
  "Inlineability_spec isolate h r =
     first_match
       [(\<not> IsScript (script r), kHasNoScript),
        (is_precise_binary_code_coverage isolate \<and> \<not> has_reported_binary_coverage r,
           kNeedsBinaryCoverage),
        (optimization_disabled r, kHasOptimizationDisabled),
        (HasBuiltinId r, kIsBuiltin),
        (\<not> IsUserJavaScript h r, kIsNotUserCode),
        (\<not> HasBytecodeArray r, kHasNoBytecode),
        (exceeds_bytecode_limit isolate r, kExceedsBytecodeLimit),
        (HasBreakInfo r, kMayContainBreakPoints)]
       kIsInlineable"

section \<open>Expected property count\<close>

record FunctionLiteral =
  expected_property_count :: int
  ShouldEagerCompile :: bool

text \<open>
  Modelled from the spec: \<^verbatim>\<open>kMaxUInt8\<close>, the maximum of the 8-bit field, a constant of a
  header outside the sources at hand.
\<close>

definition kMaxUInt8 :: int where
  "kMaxUInt8 = 255"

text \<open>
  \<^verbatim>\<open>get_property_estimate_from_literal\<close> computes an \<^verbatim>\<open>int\<close> and returns it as
  \<^verbatim>\<open>uint16_t\<close>: the conversion keeps the low 16 bits.
\<close>

definition get_property_estimate_from_literal ::
  "SharedFunctionInfo \<Rightarrow> FunctionLiteral \<Rightarrow> 16 word" where
  "get_property_estimate_from_literal r literal =
     (let estimate = expected_property_count literal;
          estimate = (if is_class_constructor r
                      then estimate + uint (expected_nof_properties r) else estimate)
      in word_of_int estimate)"

text \<open>\<^verbatim>\<open>set_expected_nof_properties\<close> stores an \<^verbatim>\<open>int\<close> into the 8-bit field.\<close>

definition set_expected_nof_properties :: "int \<Rightarrow> SharedFunctionInfo \<Rightarrow> SharedFunctionInfo" where
  "set_expected_nof_properties v r = r\<lparr>expected_nof_properties := word_of_int v\<rparr>"

definition UpdateExpectedNofPropertiesFromEstimate ::
  "SharedFunctionInfo \<Rightarrow> FunctionLiteral \<Rightarrow> SharedFunctionInfo" where
  "UpdateExpectedNofPropertiesFromEstimate r literal =
     (let estimate = uint (get_property_estimate_from_literal r literal)
      in set_expected_nof_properties (min estimate kMaxUInt8) r)"

definition UpdateAndFinalizeExpectedNofPropertiesFromEstimate ::
  "Isolate \<Rightarrow> SharedFunctionInfo \<Rightarrow> FunctionLiteral \<Rightarrow> fatal + SharedFunctionInfo" where
  "UpdateAndFinalizeExpectedNofPropertiesFromEstimate isolate r literal =
     DCHECK (DEBUG isolate) (ShouldEagerCompile literal)
       (if are_properties_final r then Inr r
        else
          (let estimate = uint (get_property_estimate_from_literal r literal);
               estimate = (if estimate = 0 then 2 else estimate);
               estimate = min estimate kMaxUInt8
           in Inr ((set_expected_nof_properties estimate r)\<lparr>are_properties_final := True\<rparr>)))"

section \<open>Sample inputs\<close>

text \<open>
  A debug-build host with a small builtin table, and a freshly initialised record (the
  payload is a builtin id, the name slot holds the sentinel, no source unit): the
  concrete inputs on which the properties below are evaluated.
\<close>

definition sample_isolate :: Isolate where
  "sample_isolate =
     \<lparr>DEBUG = True,
      builtin = (\<lambda>n. \<lparr>code_address = nat n, is_interpreter_trampoline_builtin = (n = 1)\<rparr>),
      kInterpreterEntryTrampoline = 1,
      kInstantiateAsmJs = 2,
      kCompileLazy = 3,
      kHandleApiCall = 4,
      is_precise_binary_code_coverage = False,
      FLAG_max_inlined_bytecode_size = 460,
      kNoSourcePosition = - 1,
      hash_combine = (\<lambda>a b. word_of_int (a * 31 + b)),
      CanDiscardCompiled =
        (\<lambda>r. HasBytecodeArray r \<or> HasAsmWasmData r \<or> HasUncompiledDataWithPreparseData r)\<rparr>"

definition sample_record :: SharedFunctionInfo where
  "sample_record =
     \<lparr>function_data = Smi 7,
      name_or_scope_info = kNoSharedNameSentinel,
      raw_outer_scope_info_or_feedback_metadata = the_hole_value,
      script = undefined_value,
      debug_info = None,
      expected_nof_properties = 0,
      are_properties_final = False,
      is_class_constructor = False,
      disabled_optimization_reason = 0,
      has_reported_binary_coverage = False\<rparr>"

definition sample_uncompiled :: UncompiledData where
  "sample_uncompiled =
     \<lparr>uncompiled_inferred_name = ''f'', start_position = 100, end_position = 250\<rparr>"

definition sample_scope_info :: ScopeInfo where
  "sample_scope_info =
     \<lparr>PositionInfo = None, FunctionName = Some ''g'',
      InferredFunctionName = None, OuterScopeInfo = None\<rparr>"

definition sample_script :: Script where
  "sample_script =
     \<lparr>Script_id = 5,
      shared_function_infos =
        [ClearedWeak, Weak (SharedFunctionInfoObject 2), Strong undefined_value,
         Weak (SharedFunctionInfoObject 3)],
      Script_IsUserJavaScript = True\<rparr>"

definition sample_heap :: Heap where
  "sample_heap =
     \<lparr>scripts = (\<lambda>a. sample_script),
      shared_infos = (\<lambda>a. sample_record\<lparr>script := ScriptObject 0\<rparr>)\<rparr>"

text \<open>
  A name slot that holds a scope descriptor without position data: the case in which
  \<^verbatim>\<open>SetPosition\<close> enters its first branch and writes nothing.
\<close>

definition holds_scope_info_without_positions :: "NameOrScopeInfo \<Rightarrow> bool" where
  "holds_scope_info_without_positions m =
     (case m of ScopeInfoObject info \<Rightarrow> \<not> HasPositionInfo info | _ \<Rightarrow> False)"

text \<open>
  Records built from the fresh one: a lazily compiled function named \<open>f\<close> at source
  positions 100 to 250, the same function with a position-less scope descriptor in its
  name slot, and a compiled function with that descriptor.
\<close>

definition lazy_record :: SharedFunctionInfo where
  "lazy_record =
     sample_record\<lparr>function_data := UncompiledDataWithoutPreparseData sample_uncompiled,
                   name_or_scope_info := NameString ''f''\<rparr>"

definition lazy_record_with_scope :: SharedFunctionInfo where
  "lazy_record_with_scope =
     sample_record\<lparr>function_data := UncompiledDataWithoutPreparseData sample_uncompiled,
                   name_or_scope_info := ScopeInfoObject sample_scope_info\<rparr>"

definition compiled_record_with_scope :: SharedFunctionInfo where
  "compiled_record_with_scope =
     sample_record\<lparr>function_data := BytecodeArrayObject \<lparr>bytecode_length = 10\<rparr>,
                   name_or_scope_info := ScopeInfoObject sample_scope_info\<rparr>"

text \<open>
  The identity of the owning source unit as the specification words it for the hash: the
  unit's id, and 0 when no unit is associated.
\<close>

definition owning_script_id :: "Heap \<Rightarrow> SharedFunctionInfo \<Rightarrow> int" where
  "owning_script_id h r =
     (case script r of ScriptObject a \<Rightarrow> Script_id (scripts h a) | _ \<Rightarrow> 0)"

text \<open>
  The record after the opening step of \<^verbatim>\<open>SetScript\<close>: its pre-parse cache is dropped when
  the caller asks for the reset and a cache is attached.
\<close>

definition after_reset :: "bool \<Rightarrow> SharedFunctionInfo \<Rightarrow> SharedFunctionInfo" where
  "after_reset reset r =
     (case function_data r of
        UncompiledDataWithPreparseData u c \<Rightarrow>
          if reset then r\<lparr>function_data := UncompiledDataWithoutPreparseData u\<rparr> else r
      | _ \<Rightarrow> r)"

text \<open>
  Further sample inputs: a compiled function whose scope descriptor carries the positions
  100 to 250 and the inferred name \<open>h\<close>; a store in which no record is associated with a
  source unit, and the same store after the record at address 2 has been attached to the
  unit at address 0 under position id 1; a record whose property count is final; two
  function literals.
\<close>

definition positioned_scope_info :: ScopeInfo where
  "positioned_scope_info =
     \<lparr>PositionInfo = Some (100, 250), FunctionName = Some ''g'',
      InferredFunctionName = Some ''h'', OuterScopeInfo = Some 9\<rparr>"

definition compiled_record :: SharedFunctionInfo where
  "compiled_record =
     sample_record\<lparr>function_data := BytecodeArrayObject \<lparr>bytecode_length = 10\<rparr>,
                   name_or_scope_info := ScopeInfoObject positioned_scope_info\<rparr>"

definition detached_heap :: Heap where
  "detached_heap = \<lparr>scripts = (\<lambda>a. sample_script), shared_infos = (\<lambda>a. sample_record)\<rparr>"

definition attached_heap :: Heap where
  "attached_heap =
     \<lparr>scripts = (\<lambda>a. sample_script),
      shared_infos = (\<lambda>a. sample_record)(2 := sample_record\<lparr>script := ScriptObject 0\<rparr>)\<rparr>"

definition finalized_record :: SharedFunctionInfo where
  "finalized_record =
     sample_record\<lparr>expected_nof_properties := 5, are_properties_final := True\<rparr>"

definition big_literal :: FunctionLiteral where
  "big_literal = \<lparr>expected_property_count = 300, ShouldEagerCompile = True\<rparr>"

definition small_literal :: FunctionLiteral where
  "small_literal = \<lparr>expected_property_count = 9, ShouldEagerCompile = True\<rparr>"

text \<open>
  The estimate of \<^verbatim>\<open>get_property_estimate_from_literal\<close> as the \<^verbatim>\<open>int\<close> it computes,
  before the conversion to its \<^verbatim>\<open>uint16_t\<close> result: the literal's count, plus the stored
  count for a class constructor.
\<close>

definition property_estimate :: "SharedFunctionInfo \<Rightarrow> FunctionLiteral \<Rightarrow> int" where
  "property_estimate r literal =
     expected_property_count literal
       + (if is_class_constructor r then uint (expected_nof_properties r) else 0)"

definition huge_literal :: FunctionLiteral where
  "huge_literal = \<lparr>expected_property_count = 65541, ShouldEagerCompile = True\<rparr>"

section \<open>Entry-point dispatch\<close>

text \<open>
  C1. For every record, \<^verbatim>\<open>GetCode\<close> maps the active payload variant to exactly the outcome
  the specification lists for it: a Smi to the builtin-table entry for that id, a bytecode
  program to the interpreter entry, asm/wasm module data to the instantiation entry, a
  deferred-parse summary with or without pre-parse cache to the lazy-compile trampoline, a
  host-API template to the host-API-call entry, the three foreign-function payloads to the
  wrapper code they embed, interpreter-trampoline data to its code object (which a debug
  build validates to be an interpreter trampoline), and any other payload is the fatal
  \<^verbatim>\<open>UNREACHABLE\<close>, which no recognised variant produces. A record whose payload is
  builtin id 7 resolves to the builtin-table entry for id 7.
\<close>

theorem GetCode_dispatch:
  "GetCode isolate r = ResolveEntryPoint_spec isolate (function_data r)
   \<and> (GetCode isolate r = Inl UNREACHABLE) = (\<exists>k. function_data r = OtherObject k)
   \<and> GetCode isolate (r\<lparr>function_data := Smi 7\<rparr>) = Inr (builtin isolate 7)"
proof -
  have table: "GetCode isolate s = ResolveEntryPoint_spec isolate (function_data s)" for s
    by (cases "function_data s")
       (simp_all add: GetCode_def DCHECK_def and_then_def HasBuiltinId_def
          HasBytecodeArray_def HasAsmWasmData_def HasUncompiledData_def IsApiFunction_def
          HasWasmExportedFunctionData_def wasm_exported_function_data_def
          wasm_js_function_data_def wasm_capi_function_data_def
          HasWasmJSFunctionData_def HasWasmCapiFunctionData_def builtin_id_def
          InterpreterTrampoline_def)
  have unreachable:
    "(ResolveEntryPoint_spec isolate d = Inl UNREACHABLE) = (\<exists>k. d = OtherObject k)" for d
    by (cases d) simp_all
  show ?thesis
    by (simp add: table unreachable)
qed

section \<open>Source position resolution\<close>

lemmas payload_defs =
  builtin_id_def uncompiled_data_def HasUncompiledData_def IsApiFunction_def HasBuiltinId_def
  HasWasmExportedFunctionData_def HasUncompiledDataWithPreparseData_def HasBytecodeArray_def
  HasAsmWasmData_def

lemma StartPosition_spec:
  "StartPosition isolate r =
     map_sum id fst (ResolvePosition_spec isolate (name_or_scope_info r) (function_data r))"
proof (cases "name_or_scope_info r")
  case (ScopeInfoObject info)
  then show ?thesis
    by (cases "PositionInfo info"; cases "function_data r")
       (simp_all add: StartPosition_def ResolvePosition_spec_def HasPositionInfo_def
          ScopeInfo_StartPosition_def payload_defs and_then_def DCHECK_def not_compile_lazy_def
          wasm_exported_function_data_def functions_at_def)
qed (cases "function_data r";
     simp add: StartPosition_def ResolvePosition_spec_def HasPositionInfo_def
          ScopeInfo_StartPosition_def payload_defs and_then_def DCHECK_def not_compile_lazy_def
          wasm_exported_function_data_def functions_at_def)+

lemma EndPosition_spec:
  "EndPosition isolate r =
     map_sum id snd (ResolvePosition_spec isolate (name_or_scope_info r) (function_data r))"
proof (cases "name_or_scope_info r")
  case (ScopeInfoObject info)
  then show ?thesis
    by (cases "PositionInfo info"; cases "function_data r")
       (simp_all add: EndPosition_def ResolvePosition_spec_def HasPositionInfo_def
          ScopeInfo_EndPosition_def payload_defs and_then_def DCHECK_def not_compile_lazy_def
          wasm_exported_function_data_def functions_at_def)
qed (cases "function_data r";
     simp add: EndPosition_def ResolvePosition_spec_def HasPositionInfo_def
          ScopeInfo_EndPosition_def payload_defs and_then_def DCHECK_def not_compile_lazy_def
          wasm_exported_function_data_def functions_at_def)+

text \<open>
  C2. For every record, \<^verbatim>\<open>StartPosition\<close> and \<^verbatim>\<open>EndPosition\<close> resolve by the fixed
  precedence: the positions of a scope descriptor with position data in the name slot;
  else the stored start and end of a deferred-parse summary, with or without pre-parse
  cache; else 0 for a host-API function or a builtin id (a debug build asserts that the id
  is not the lazy-compile builtin); else, for exported-foreign-function data, the offset and
  end offset of the function's entry in the module's per-function table, converted to
  \<^verbatim>\<open>int\<close>; else the no-position sentinel.
\<close>

theorem position_precedence:
  "StartPosition isolate r =
     map_sum id fst (ResolvePosition_spec isolate (name_or_scope_info r) (function_data r))
   \<and> EndPosition isolate r =
     map_sum id snd (ResolvePosition_spec isolate (name_or_scope_info r) (function_data r))"
  by (simp add: StartPosition_spec EndPosition_spec)

text \<open>
  The scenario of the specification: a record whose payload is builtin id 7, with no scope
  descriptor in its name slot, starts and ends at position 0.
\<close>

lemma builtin_record_positions:
  "StartPosition sample_isolate sample_record = Inr 0
   \<and> EndPosition sample_isolate sample_record = Inr 0"
  by (simp add: StartPosition_spec EndPosition_spec ResolvePosition_spec_def sample_record_def
      sample_isolate_def)

section \<open>Writing positions back\<close>

lemma uncompiled_data_Inr: "HasUncompiledData r \<Longrightarrow> \<exists>u. uncompiled_data r = Inr u"
  by (cases "function_data r") (simp_all add: HasUncompiledData_def uncompiled_data_def)

lemma uncompiled_data_Inl: "\<not> HasUncompiledData r \<Longrightarrow> uncompiled_data r = Inl BAD_CAST"
  by (cases "function_data r") (simp_all add: HasUncompiledData_def uncompiled_data_def)

lemma positions_of_scope_info:
  "name_or_scope_info r = ScopeInfoObject info \<Longrightarrow> PositionInfo info = Some p \<Longrightarrow>
   StartPosition isolate r = Inr (fst p) \<and> EndPosition isolate r = Inr (snd p)"
  by (simp add: StartPosition_def EndPosition_def HasPositionInfo_def
      ScopeInfo_StartPosition_def ScopeInfo_EndPosition_def)

lemma positions_of_uncompiled_data:
  "scope_info_with_positions (name_or_scope_info r) = None \<Longrightarrow> uncompiled_data r = Inr u \<Longrightarrow>
   StartPosition isolate r = Inr (start_position u) \<and> EndPosition isolate r = Inr (end_position u)"
  by (cases "function_data r")
     (simp_all add: StartPosition_def EndPosition_def uncompiled_data_def
        HasUncompiledData_def and_then_def)

lemma SetPosition_scope_info:
  assumes "name_or_scope_info r = ScopeInfoObject info" "PositionInfo info = Some p"
  shows "SetPosition isolate r s e =
     Inr (r\<lparr>name_or_scope_info := ScopeInfoObject (info\<lparr>PositionInfo := Some (s, e)\<rparr>)\<rparr>)"
  using assms by (simp add: SetPosition_def HasPositionInfo_def SetPositionInfo_def and_then_def)

lemma SetPosition_uncompiled_data:
  assumes "\<forall>info. name_or_scope_info r \<noteq> ScopeInfoObject info" "uncompiled_data r = Inr u"
  shows "SetPosition isolate r s e =
     Inr (r\<lparr>function_data :=
        UncompiledDataWithoutPreparseData (u\<lparr>start_position := s, end_position := e\<rparr>)\<rparr>)"
  using assms
  by (cases "name_or_scope_info r"; cases "function_data r")
     (simp_all add: SetPosition_def payload_defs and_then_def ClearPreparseData_def DCHECK_def
        update_uncompiled_data_def)

lemma SetPosition_unreachable:
  assumes "\<forall>info. name_or_scope_info r \<noteq> ScopeInfoObject info" "\<not> HasUncompiledData r"
  shows "SetPosition isolate r s e = Inl UNREACHABLE"
  using assms
  by (cases "name_or_scope_info r") (simp_all add: SetPosition_def)

lemma SetPosition_without_positions:
  assumes "holds_scope_info_without_positions (name_or_scope_info r)"
  shows "SetPosition isolate r s e = Inr r"
  using assms
  by (cases "name_or_scope_info r")
     (simp_all add: SetPosition_def holds_scope_info_without_positions_def)

text \<open>
  C4, as amended. For every record whose name slot does not hold a scope descriptor
  without position data, \<^verbatim>\<open>SetPosition(start, end)\<close> writes the positions through the
  active representation: into the scope descriptor in the name slot when it carries
  position data, and otherwise into the deferred-parse summary, whose pre-parse cache is
  dropped first. Afterwards \<^verbatim>\<open>StartPosition\<close> and \<^verbatim>\<open>EndPosition\<close> report the new values. The
  call is fatal, and then by \<^verbatim>\<open>UNREACHABLE\<close>, if and only if neither a position-carrying
  scope descriptor nor a deferred-parse payload is active.
\<close>

theorem SetPosition_writes_back:
  assumes ok: "\<not> holds_scope_info_without_positions (name_or_scope_info r)"
  shows "((\<exists>x. SetPosition isolate r s e = Inl x) =
            (scope_info_with_positions (name_or_scope_info r) = None \<and> \<not> HasUncompiledData r))
    \<and> ((\<exists>x. SetPosition isolate r s e = Inl x) = (SetPosition isolate r s e = Inl UNREACHABLE))
    \<and> (scope_info_with_positions (name_or_scope_info r) = Some info \<longrightarrow>
          SetPosition isolate r s e =
            Inr (r\<lparr>name_or_scope_info := ScopeInfoObject (info\<lparr>PositionInfo := Some (s, e)\<rparr>)\<rparr>))
    \<and> (scope_info_with_positions (name_or_scope_info r) = None \<and> uncompiled_data r = Inr u \<longrightarrow>
          SetPosition isolate r s e =
            Inr (r\<lparr>function_data :=
              UncompiledDataWithoutPreparseData (u\<lparr>start_position := s, end_position := e\<rparr>)\<rparr>))
    \<and> (SetPosition isolate r s e = Inr r' \<longrightarrow>
          StartPosition isolate r' = Inr s \<and> EndPosition isolate r' = Inr e)"
proof -
  consider
      (scope) i p where "name_or_scope_info r = ScopeInfoObject i" "PositionInfo i = Some p"
    | (summary) v where "\<forall>i. name_or_scope_info r \<noteq> ScopeInfoObject i" "uncompiled_data r = Inr v"
    | (neither) "\<forall>i. name_or_scope_info r \<noteq> ScopeInfoObject i" "\<not> HasUncompiledData r"
  proof (cases "name_or_scope_info r")
    case (ScopeInfoObject i)
    with ok obtain p where "PositionInfo i = Some p"
      by (auto simp: holds_scope_info_without_positions_def HasPositionInfo_def)
    with ScopeInfoObject show ?thesis using scope by blast
  next
    case kNoSharedNameSentinel
    then show ?thesis
      using summary neither uncompiled_data_Inr [of r] by (cases "HasUncompiledData r") auto
  next
    case (NameString x)
    then show ?thesis
      using summary neither uncompiled_data_Inr [of r] by (cases "HasUncompiledData r") auto
  qed
  then show ?thesis
  proof cases
    case scope
    let ?r' = "r\<lparr>name_or_scope_info := ScopeInfoObject (i\<lparr>PositionInfo := Some (s, e)\<rparr>)\<rparr>"
    have w: "SetPosition isolate r s e = Inr ?r'"
      by (rule SetPosition_scope_info [OF scope])
    have sw: "scope_info_with_positions (name_or_scope_info r) = Some i"
      using scope by (simp add: HasPositionInfo_def)
    have rb: "StartPosition isolate ?r' = Inr s \<and> EndPosition isolate ?r' = Inr e"
      using positions_of_scope_info [of ?r' "i\<lparr>PositionInfo := Some (s, e)\<rparr>" "(s, e)" isolate]
      by simp
    show ?thesis using w sw rb by auto
  next
    case summary
    let ?r' = "r\<lparr>function_data :=
      UncompiledDataWithoutPreparseData (v\<lparr>start_position := s, end_position := e\<rparr>)\<rparr>"
    have w: "SetPosition isolate r s e = Inr ?r'"
      by (rule SetPosition_uncompiled_data [OF summary])
    have sw: "scope_info_with_positions (name_or_scope_info r) = None"
      using summary(1) by (cases "name_or_scope_info r") simp_all
    have hu: "HasUncompiledData r"
      using summary(2) uncompiled_data_Inl [of r] by auto
    have rb: "StartPosition isolate ?r' = Inr s \<and> EndPosition isolate ?r' = Inr e"
      using sw
      by (simp add: StartPosition_def EndPosition_def uncompiled_data_def
          HasUncompiledData_def and_then_def)
    show ?thesis using w sw hu rb summary(2) by auto
  next
    case neither
    have w: "SetPosition isolate r s e = Inl UNREACHABLE"
      by (rule SetPosition_unreachable [OF neither])
    have sw: "scope_info_with_positions (name_or_scope_info r) = None"
      using neither(1) by (cases "name_or_scope_info r") simp_all
    show ?thesis using w sw neither(2) uncompiled_data_Inl [OF neither(2)] by auto
  qed
qed

text \<open>
  The scenario of the specification: a record with a deferred-parse payload at 100 to 250
  and no pre-parse cache has source size 150, and after \<^verbatim>\<open>SetPosition(120, 260)\<close> it has
  source size 140.
\<close>

theorem SetPosition_writes_back_witness:
  "\<not> holds_scope_info_without_positions (name_or_scope_info lazy_record)
   \<and> SourceSize sample_isolate lazy_record = Inr 150
   \<and> SetPosition sample_isolate lazy_record 120 260 =
       Inr (lazy_record\<lparr>function_data := UncompiledDataWithoutPreparseData
              (sample_uncompiled\<lparr>start_position := 120, end_position := 260\<rparr>)\<rparr>)
   \<and> SourceSize sample_isolate
        (lazy_record\<lparr>function_data := UncompiledDataWithoutPreparseData
              (sample_uncompiled\<lparr>start_position := 120, end_position := 260\<rparr>)\<rparr>) = Inr 140"
proof -
  have ok: "\<not> holds_scope_info_without_positions (name_or_scope_info lazy_record)"
    by (simp add: lazy_record_def holds_scope_info_without_positions_def)
  have none: "scope_info_with_positions (name_or_scope_info lazy_record) = None"
    by (simp add: lazy_record_def)
  have u: "uncompiled_data lazy_record = Inr sample_uncompiled"
    by (simp add: lazy_record_def uncompiled_data_def)
  have before: "SourceSize sample_isolate lazy_record = Inr 150"
    using positions_of_uncompiled_data [OF none u, of sample_isolate]
    by (simp add: SourceSize_def and_then_def sample_uncompiled_def)
  note wb = SetPosition_writes_back [OF ok, of sample_isolate 120 260 _ sample_uncompiled]
  have set: "SetPosition sample_isolate lazy_record 120 260 =
       Inr (lazy_record\<lparr>function_data := UncompiledDataWithoutPreparseData
              (sample_uncompiled\<lparr>start_position := 120, end_position := 260\<rparr>)\<rparr>)"
    using wb none u by blast
  have after: "SourceSize sample_isolate
        (lazy_record\<lparr>function_data := UncompiledDataWithoutPreparseData
              (sample_uncompiled\<lparr>start_position := 120, end_position := 260\<rparr>)\<rparr>) = Inr 140"
    using wb set by (simp add: SourceSize_def and_then_def)
  show ?thesis using ok before set after by simp
qed

text \<open>
  The statement of the specification, which covers every record, fails on two records
  whose name slot holds a scope descriptor
  without position data. On the compiled one neither representation is active, yet the call
  returns and is not fatal. On the lazily compiled one the deferred-parse payload is the
  active representation (\<^verbatim>\<open>StartPosition\<close> reads 100 from it), yet the call writes nothing
  and \<^verbatim>\<open>StartPosition\<close> still reports 100.
\<close>

theorem SetPosition_counterexample:
  "scope_info_with_positions (name_or_scope_info compiled_record_with_scope) = None
   \<and> \<not> HasUncompiledData compiled_record_with_scope
   \<and> SetPosition sample_isolate compiled_record_with_scope 120 260 =
       Inr compiled_record_with_scope
   \<and> scope_info_with_positions (name_or_scope_info lazy_record_with_scope) = None
   \<and> HasUncompiledData lazy_record_with_scope
   \<and> StartPosition sample_isolate lazy_record_with_scope = Inr 100
   \<and> SetPosition sample_isolate lazy_record_with_scope 120 260 = Inr lazy_record_with_scope"
  by (simp add: compiled_record_with_scope_def lazy_record_with_scope_def sample_scope_info_def
      sample_uncompiled_def HasPositionInfo_def HasUncompiledData_def SetPosition_def
      StartPosition_def uncompiled_data_def and_then_def)

section \<open>Debug name\<close>

text \<open>
  C10. For every record, \<^verbatim>\<open>DebugName\<close> returns the resolved name when it is non-empty and
  the inferred name otherwise. It is a total function of the record, and it does not
  depend on the debug info: the result is the same whatever debug info is attached, or none.
\<close>

theorem DebugName_resolved_or_inferred:
  "DebugName r = (if Name r \<noteq> [] then Name r else inferred_name r)
   \<and> DebugName (r\<lparr>debug_info := d\<rparr>) = DebugName r
   \<and> DebugName (r\<lparr>debug_info := None\<rparr>) = DebugName r"
proof -
  have u: "uncompiled_data (r\<lparr>debug_info := x\<rparr>) = uncompiled_data r" for x
    by (simp add: uncompiled_data_def)
  have n: "Name (r\<lparr>debug_info := x\<rparr>) = Name r" for x
    by (simp add: Name_def)
  have i: "inferred_name (r\<lparr>debug_info := x\<rparr>) = inferred_name r" for x
    by (cases "name_or_scope_info r") (simp_all add: inferred_name_def u)
  show ?thesis
    by (simp add: DebugName_def n i)
qed

section \<open>Discard round trip\<close>

lemma DiscardCompiledMetadata_result:
  assumes "is_compiled isolate r
    \<or> IsScopeInfo_or_TheHole (raw_outer_scope_info_or_feedback_metadata r)"
  shows "\<exists>outer. DiscardCompiledMetadata isolate r =
           Inr (r\<lparr>raw_outer_scope_info_or_feedback_metadata := outer\<rparr>)"
proof (cases "is_compiled isolate r")
  case True
  then show ?thesis by (auto simp: DiscardCompiledMetadata_def Let_def)
next
  case False
  with assms have "DiscardCompiledMetadata isolate r = Inr r"
    by (simp add: DiscardCompiledMetadata_def DCHECK_def)
  moreover have "r = r\<lparr>raw_outer_scope_info_or_feedback_metadata :=
      raw_outer_scope_info_or_feedback_metadata r\<rparr>"
    by simp
  ultimately show ?thesis by metis
qed

lemma inferred_name_fresh:
  "inferred_name (r\<lparr>function_data :=
      NewUncompiledDataWithoutPreparseData (inferred_name r) S E\<rparr>) = inferred_name r"
  by (cases "name_or_scope_info r")
     (simp_all add: inferred_name_def uncompiled_data_def NewUncompiledDataWithoutPreparseData_def)

lemma inferred_name_cleared:
  "function_data r = UncompiledDataWithPreparseData u c \<Longrightarrow>
   inferred_name (r\<lparr>function_data := UncompiledDataWithoutPreparseData u\<rparr>) = inferred_name r"
  by (cases "name_or_scope_info r") (simp_all add: inferred_name_def uncompiled_data_def)

lemma inferred_name_outer:
  "inferred_name (r\<lparr>raw_outer_scope_info_or_feedback_metadata := outer\<rparr>) = inferred_name r"
  by (cases "name_or_scope_info r") (simp_all add: inferred_name_def uncompiled_data_def)

lemma resolve_fresh:
  assumes "ResolvePosition_spec isolate m d = Inr (S, E)"
  shows "ResolvePosition_spec isolate m (NewUncompiledDataWithoutPreparseData n S E) = Inr (S, E)"
  using assms
  by (cases "embedded_position_data m")
     (simp_all add: ResolvePosition_spec_def NewUncompiledDataWithoutPreparseData_def)

lemma resolve_cleared:
  "ResolvePosition_spec isolate m (UncompiledDataWithoutPreparseData u)
     = ResolvePosition_spec isolate m (UncompiledDataWithPreparseData u c)"
  by (cases "embedded_position_data m") (simp_all add: ResolvePosition_spec_def)

lemma resolve_pair:
  assumes "StartPosition isolate r = Inr S" "EndPosition isolate r = Inr E"
  shows "ResolvePosition_spec isolate (name_or_scope_info r) (function_data r) = Inr (S, E)"
  using assms unfolding StartPosition_spec EndPosition_spec
  by (cases "ResolvePosition_spec isolate (name_or_scope_info r) (function_data r)") auto

text \<open>
  C3. For every discard-eligible record that reports \<^verbatim>\<open>StartPosition() == S\<close>,
  \<^verbatim>\<open>EndPosition() == E\<close> and inferred name \<open>N\<close>, and that is compiled (or, if it is not,
  whose outer-scope slot passes the debug assertion of \<^verbatim>\<open>DiscardCompiledMetadata\<close>),
  \<^verbatim>\<open>DiscardCompiled\<close> completes; afterwards the payload is a deferred-parse summary without
  pre-parse cache (the existing summary with its cache dropped in place when there was one,
  and otherwise a fresh summary built from \<open>N\<close>, \<open>S\<close> and \<open>E\<close>), and the record reports
  \<^verbatim>\<open>StartPosition() == S\<close>, \<^verbatim>\<open>EndPosition() == E\<close> and inferred name \<open>N\<close>.
\<close>

theorem DiscardCompiled_round_trip:
  assumes S: "StartPosition isolate r = Inr S" and E: "EndPosition isolate r = Inr E"
    and elig: "CanDiscardCompiled isolate r"
    and st: "is_compiled isolate r
      \<or> IsScopeInfo_or_TheHole (raw_outer_scope_info_or_feedback_metadata r)"
  shows "\<exists>r'. DiscardCompiled isolate r = Inr r'
     \<and> function_data r' =
         (case function_data r of
            UncompiledDataWithPreparseData u c \<Rightarrow> UncompiledDataWithoutPreparseData u
          | _ \<Rightarrow> NewUncompiledDataWithoutPreparseData (inferred_name r) S E)
     \<and> HasUncompiledData r' \<and> \<not> HasUncompiledDataWithPreparseData r'
     \<and> StartPosition isolate r' = Inr S \<and> EndPosition isolate r' = Inr E
     \<and> inferred_name r' = inferred_name r"
proof -
  obtain outer where m: "DiscardCompiledMetadata isolate r =
      Inr (r\<lparr>raw_outer_scope_info_or_feedback_metadata := outer\<rparr>)"
    using DiscardCompiledMetadata_result [OF st] by blast
  let ?r1 = "r\<lparr>raw_outer_scope_info_or_feedback_metadata := outer\<rparr>"
  have res: "ResolvePosition_spec isolate (name_or_scope_info r) (function_data r) = Inr (S, E)"
    by (rule resolve_pair [OF S E])
  have step: "DiscardCompiled isolate r =
      (if HasUncompiledDataWithPreparseData ?r1 then ClearPreparseData isolate ?r1
       else Inr (?r1\<lparr>function_data :=
              NewUncompiledDataWithoutPreparseData (inferred_name r) S E\<rparr>))"
    using S E elig m by (simp add: DiscardCompiled_def DCHECK_def and_then_def)
  show ?thesis
  proof (cases "HasUncompiledDataWithPreparseData r")
    case True
    then obtain u c where d: "function_data r = UncompiledDataWithPreparseData u c"
      by (cases "function_data r") (simp_all add: HasUncompiledDataWithPreparseData_def)
    let ?r' = "?r1\<lparr>function_data := UncompiledDataWithoutPreparseData u\<rparr>"
    have run: "DiscardCompiled isolate r = Inr ?r'"
      using d
      by (simp add: step HasUncompiledDataWithPreparseData_def ClearPreparseData_def DCHECK_def)
    have pos: "ResolvePosition_spec isolate (name_or_scope_info ?r') (function_data ?r')
        = Inr (S, E)"
      using res d resolve_cleared [of isolate "name_or_scope_info r" u c] by simp
    have nm: "inferred_name ?r' = inferred_name r"
      using inferred_name_cleared [of ?r1 u c] d by (simp add: inferred_name_outer)
    show ?thesis
      using run pos nm d
      by (simp add: StartPosition_spec EndPosition_spec HasUncompiledData_def
          HasUncompiledDataWithPreparseData_def)
  next
    case False
    let ?r' = "?r1\<lparr>function_data :=
      NewUncompiledDataWithoutPreparseData (inferred_name r) S E\<rparr>"
    have run: "DiscardCompiled isolate r = Inr ?r'"
      using False by (simp add: step HasUncompiledDataWithPreparseData_def)
    have pos: "ResolvePosition_spec isolate (name_or_scope_info ?r') (function_data ?r')
        = Inr (S, E)"
      using resolve_fresh [OF res] by simp
    have nm: "inferred_name ?r' = inferred_name r"
      using inferred_name_fresh [of ?r1 S E] by (simp add: inferred_name_outer)
    have pay: "(case function_data r of
            UncompiledDataWithPreparseData u c \<Rightarrow> UncompiledDataWithoutPreparseData u
          | _ \<Rightarrow> NewUncompiledDataWithoutPreparseData (inferred_name r) S E)
        = NewUncompiledDataWithoutPreparseData (inferred_name r) S E"
      using False
      by (cases "function_data r") (simp_all add: HasUncompiledDataWithPreparseData_def)
    show ?thesis
      using run pos nm pay
      by (simp add: StartPosition_spec EndPosition_spec HasUncompiledData_def
          HasUncompiledDataWithPreparseData_def NewUncompiledDataWithoutPreparseData_def)
  qed
qed

text \<open>
  On the compiled sample function: positions 100 and 250 and the inferred name \<open>h\<close> before
  the discard, and the same three afterwards, with a fresh deferred-parse summary as payload.
\<close>

theorem DiscardCompiled_round_trip_witness:
  "StartPosition sample_isolate compiled_record = Inr 100
   \<and> EndPosition sample_isolate compiled_record = Inr 250
   \<and> inferred_name compiled_record = ''h''
   \<and> CanDiscardCompiled sample_isolate compiled_record
   \<and> is_compiled sample_isolate compiled_record
   \<and> (\<exists>r'. DiscardCompiled sample_isolate compiled_record = Inr r'
        \<and> function_data r' = NewUncompiledDataWithoutPreparseData ''h'' 100 250
        \<and> HasUncompiledData r' \<and> \<not> HasUncompiledDataWithPreparseData r'
        \<and> StartPosition sample_isolate r' = Inr 100
        \<and> EndPosition sample_isolate r' = Inr 250
        \<and> inferred_name r' = ''h'')"
proof -
  have S: "StartPosition sample_isolate compiled_record = Inr 100"
    and E: "EndPosition sample_isolate compiled_record = Inr 250"
    by (simp_all add: compiled_record_def positioned_scope_info_def StartPosition_def
        EndPosition_def HasPositionInfo_def ScopeInfo_StartPosition_def ScopeInfo_EndPosition_def)
  have N: "inferred_name compiled_record = ''h''"
    by (simp add: compiled_record_def positioned_scope_info_def inferred_name_def)
  have elig: "CanDiscardCompiled sample_isolate compiled_record"
    by (simp add: sample_isolate_def compiled_record_def HasBytecodeArray_def)
  have comp: "is_compiled sample_isolate compiled_record"
    by (simp add: is_compiled_def compiled_record_def)
  have d: "function_data compiled_record = BytecodeArrayObject \<lparr>bytecode_length = 10\<rparr>"
    by (simp add: compiled_record_def)
  show ?thesis
    using DiscardCompiled_round_trip [OF S E elig disjI1 [OF comp]] S E N elig comp
    by (simp add: d)
qed

section \<open>Inlineability\<close>

lemma GetBytecodeArray_Inr: "HasBytecodeArray r \<Longrightarrow> \<exists>b. GetBytecodeArray r = Inr b"
  by (cases "function_data r") (simp_all add: HasBytecodeArray_def GetBytecodeArray_def)

lemma GetInlineability_list:
  "GetInlineability isolate h r = Inr (Inlineability_spec isolate h r)"
proof (cases "HasBytecodeArray r")
  case True
  then obtain b where "GetBytecodeArray r = Inr b" using GetBytecodeArray_Inr by blast
  then show ?thesis
    by (simp add: GetInlineability_def Inlineability_spec_def exceeds_bytecode_limit_def
        and_then_def)
next
  case False
  then show ?thesis
    by (simp add: GetInlineability_def Inlineability_spec_def)
qed

text \<open>
  C5. For every record, \<^verbatim>\<open>GetInlineability\<close> returns, and its result is that of the ordered
  first-match-wins list: no source unit, then precise coverage enabled and not yet reported,
  then optimization disabled, then a builtin id, then not user code, then no bytecode
  program, then a bytecode length over the configured maximum, then active breakpoints, and
  otherwise inlineable. In particular a record with a source unit, no pending coverage
  report and optimization disabled yields \<^verbatim>\<open>kHasOptimizationDisabled\<close> whatever its payload
  is, with or without bytecode.
\<close>

theorem GetInlineability_decision_list:
  "GetInlineability isolate h r = Inr (Inlineability_spec isolate h r)
   \<and> (IsScript (script r)
        \<and> \<not> (is_precise_binary_code_coverage isolate \<and> \<not> has_reported_binary_coverage r)
        \<and> optimization_disabled r
      \<longrightarrow> GetInlineability isolate h (r\<lparr>function_data := d\<rparr>) = Inr kHasOptimizationDisabled)"
  by (simp add: GetInlineability_list Inlineability_spec_def optimization_disabled_def)

theorem GetInlineability_decision_list_witness:
  "IsScript (script (compiled_record\<lparr>script := ScriptObject 0, disabled_optimization_reason := 1\<rparr>))
   \<and> \<not> (is_precise_binary_code_coverage sample_isolate
        \<and> \<not> has_reported_binary_coverage
              (compiled_record\<lparr>script := ScriptObject 0, disabled_optimization_reason := 1\<rparr>))
   \<and> optimization_disabled
        (compiled_record\<lparr>script := ScriptObject 0, disabled_optimization_reason := 1\<rparr>)
   \<and> GetInlineability sample_isolate sample_heap
        (compiled_record\<lparr>script := ScriptObject 0, disabled_optimization_reason := 1,
                          function_data := AsmWasmData\<rparr>) = Inr kHasOptimizationDisabled
   \<and> GetInlineability sample_isolate sample_heap
        (compiled_record\<lparr>script := ScriptObject 0, disabled_optimization_reason := 1\<rparr>)
        = Inr kHasOptimizationDisabled
   \<and> GetInlineability sample_isolate sample_heap (compiled_record\<lparr>script := ScriptObject 0\<rparr>)
        = Inr kIsInlineable"
proof -
  let ?r = "compiled_record\<lparr>script := ScriptObject 0, disabled_optimization_reason := 1\<rparr>"
  have a: "IsScript (script ?r)" by simp
  have b: "\<not> (is_precise_binary_code_coverage sample_isolate
        \<and> \<not> has_reported_binary_coverage ?r)"
    by (simp add: sample_isolate_def)
  have c: "optimization_disabled ?r" by (simp add: optimization_disabled_def)
  have l: "GetInlineability sample_isolate sample_heap (compiled_record\<lparr>script := ScriptObject 0\<rparr>)
        = Inr kIsInlineable"
    by (simp add: GetInlineability_def compiled_record_def sample_record_def sample_isolate_def
        sample_heap_def sample_script_def optimization_disabled_def HasBuiltinId_def
        IsUserJavaScript_def HasBytecodeArray_def GetBytecodeArray_def HasBreakInfo_def
        and_then_def)
  note t = GetInlineability_decision_list [of sample_isolate sample_heap ?r]
  show ?thesis
    using t [of AsmWasmData] t [of "function_data ?r"] a b c l by simp
qed

section \<open>Hash\<close>

lemma Hash_eq:
  "Hash isolate h r =
     and_then (StartPosition isolate r) (\<lambda>start_pos.
       Inr (ucast (hash_combine isolate start_pos (owning_script_id h r))))"
  by (cases "script r") (simp_all add: Hash_def owning_script_id_def and_then_def)

text \<open>
  C6. For every record, \<^verbatim>\<open>Hash\<close> is a function of two inputs only, the start position and
  the id of the owning source unit, taken as 0 when no unit is associated: it is the
  combination of the two, truncated to 32 bits. Two records with equal start position and
  equal (or both absent) owning unit hash identically, whatever else differs between them
  and between the stores they live in.
\<close>

theorem Hash_pure:
  "Hash isolate h r =
     and_then (StartPosition isolate r) (\<lambda>start_pos.
       Inr (ucast (hash_combine isolate start_pos (owning_script_id h r))))
   \<and> (StartPosition isolate r1 = StartPosition isolate r2
        \<and> owning_script_id h1 r1 = owning_script_id h2 r2
      \<longrightarrow> Hash isolate h1 r1 = Hash isolate h2 r2)"
  by (simp add: Hash_eq)

theorem Hash_pure_witness:
  "StartPosition sample_isolate (lazy_record\<lparr>script := ScriptObject 0\<rparr>)
     = StartPosition sample_isolate (compiled_record\<lparr>script := ScriptObject 3\<rparr>)
   \<and> owning_script_id sample_heap (lazy_record\<lparr>script := ScriptObject 0\<rparr>)
     = owning_script_id sample_heap (compiled_record\<lparr>script := ScriptObject 3\<rparr>)
   \<and> Hash sample_isolate sample_heap (lazy_record\<lparr>script := ScriptObject 0\<rparr>)
     = Hash sample_isolate sample_heap (compiled_record\<lparr>script := ScriptObject 3\<rparr>)
   \<and> Hash sample_isolate sample_heap (lazy_record\<lparr>script := ScriptObject 0\<rparr>) = Inr 3105
   \<and> Hash sample_isolate detached_heap lazy_record = Inr 3100"
proof -
  let ?a = "lazy_record\<lparr>script := ScriptObject 0\<rparr>"
  let ?b = "compiled_record\<lparr>script := ScriptObject 3\<rparr>"
  have sa: "StartPosition sample_isolate ?a = Inr 100"
    by (simp add: lazy_record_def sample_uncompiled_def StartPosition_def HasUncompiledData_def
        uncompiled_data_def and_then_def)
  have sb: "StartPosition sample_isolate ?b = Inr 100"
    by (simp add: compiled_record_def positioned_scope_info_def StartPosition_def
        HasPositionInfo_def ScopeInfo_StartPosition_def)
  have sc: "StartPosition sample_isolate lazy_record = Inr 100"
    by (simp add: lazy_record_def sample_uncompiled_def StartPosition_def HasUncompiledData_def
        uncompiled_data_def and_then_def)
  have ia: "owning_script_id sample_heap ?a = 5" and ib: "owning_script_id sample_heap ?b = 5"
    by (simp_all add: owning_script_id_def sample_heap_def sample_script_def)
  have ic: "owning_script_id detached_heap lazy_record = 0"
    by (simp add: owning_script_id_def lazy_record_def sample_record_def)
  note t = Hash_pure [of sample_isolate _ _ ?a ?b sample_heap sample_heap]
  have eq: "Hash sample_isolate sample_heap ?a = Hash sample_isolate sample_heap ?b"
    using t sa sb ia ib by simp
  have va: "Hash sample_isolate sample_heap ?a = Inr 3105"
    using t [of sample_heap ?a] sa ia by (simp add: and_then_def sample_isolate_def)
  have vc: "Hash sample_isolate detached_heap lazy_record = Inr 3100"
    using t [of detached_heap lazy_record] sc ic by (simp add: and_then_def sample_isolate_def)
  show ?thesis using sa sb ia ib eq va vc by simp
qed

section \<open>Association with a source unit\<close>

lemma SetScript_sets_script:
  assumes "SetScript isolate h this script_object n reset = Inr h'"
  shows "script (shared_infos h' this) = script_object"
proof (cases "script (shared_infos h this) = script_object")
  case True
  with assms show ?thesis by (simp add: SetScript_def)
next
  case False
  with assms show ?thesis
    by (auto simp: SetScript_def Let_def and_then_def split: sum.splits)
qed

lemma SetScript_same:
  "script (shared_infos h this) = script_object \<Longrightarrow>
   SetScript isolate h this script_object n reset = Inr h"
  by (simp add: SetScript_def)

text \<open>
  C7. For every record, once \<^verbatim>\<open>SetScript\<close> has completed for a unit and a position id, the
  record's source-unit reference is that unit, and a second call with the same unit and the
  same position id returns at once and leaves the whole store as it is: no table write, no
  pre-parse-cache reset (whatever the reset flag of the second call), no change to the
  record.
\<close>

theorem SetScript_idempotent:
  "SetScript isolate h this script_object n reset = Inr h'
   \<longrightarrow> script (shared_infos h' this) = script_object
       \<and> SetScript isolate h' this script_object n reset2 = Inr h'"
  using SetScript_sets_script SetScript_same by blast

theorem SetScript_idempotent_witness:
  "SetScript sample_isolate detached_heap 2 (ScriptObject 0) 1 False = Inr attached_heap
   \<and> script (shared_infos attached_heap 2) = ScriptObject 0
   \<and> SetScript sample_isolate attached_heap 2 (ScriptObject 0) 1 True = Inr attached_heap"
proof -
  have tbl: "shared_function_infos sample_script =
      [ClearedWeak, Weak (SharedFunctionInfoObject 2), Strong undefined_value,
       Weak (SharedFunctionInfoObject 3)]"
    by (simp add: sample_script_def)
  have keep: "sample_script\<lparr>shared_function_infos :=
       [ClearedWeak, Weak (SharedFunctionInfoObject 2), Strong undefined_value,
        Weak (SharedFunctionInfoObject 3)]\<rparr> = sample_script"
    by (simp add: sample_script_def)
  have same: "(\<lambda>a. sample_script)(0 := sample_script) = (\<lambda>a. sample_script)"
    by auto
  have dbg: "DEBUG sample_isolate" by (simp add: sample_isolate_def)
  have rec: "script sample_record = undefined_value"
    "\<not> HasUncompiledDataWithPreparseData sample_record"
    by (simp_all add: sample_record_def HasUncompiledDataWithPreparseData_def)
  have chk: "SetScript_debug_checks sample_isolate 2 (shared_function_infos sample_script) 1
      = Inr ()"
    by (simp add: SetScript_debug_checks_def dbg tbl DCHECK_def WeakFixedArray_Get_def
        and_then_def)
  have wr: "WeakFixedArray_Set (shared_function_infos sample_script) 1
      (Weak (SharedFunctionInfoObject 2)) = Inr (shared_function_infos sample_script)"
    by (simp add: tbl WeakFixedArray_Set_def)
  have first: "SetScript sample_isolate detached_heap 2 (ScriptObject 0) 1 False
      = Inr attached_heap"
    by (simp add: SetScript_def detached_heap_def attached_heap_def rec chk wr dbg
        Let_def and_then_def DCHECK_def set_shared_function_infos_def keep same)
  show ?thesis
    using SetScript_idempotent [of sample_isolate detached_heap 2 "ScriptObject 0" 1 False
        attached_heap True] first
    by simp
qed

lemma reset_step:
  "(if reset \<and> HasUncompiledDataWithPreparseData r then ClearPreparseData isolate r else Inr r)
     = Inr (after_reset reset r)"
  by (cases "function_data r")
     (simp_all add: after_reset_def HasUncompiledDataWithPreparseData_def
        ClearPreparseData_def DCHECK_def)

lemma script_after_reset: "script (after_reset reset r) = script r"
  by (cases "function_data r") (simp_all add: after_reset_def)

text \<open>
  C8, as amended. For every record associated with a source unit and detached from it to
  no unit (the new target is no source unit) under a position id that is not negative,
  \<^verbatim>\<open>SetScript\<close> completes without error in either build. The old unit's table slot is
  overwritten with the cleared marker, a strong reference to \<^verbatim>\<open>undefined\<close>, exactly when the
  id is below the table's length and the slot weakly refers to this record; if the slot
  refers to another record, is empty or holds anything else, or the id is at or beyond the
  table's length, the table is left as it is. Nothing else in the store changes except the
  record, whose source-unit reference becomes the new target in every case.
\<close>

theorem SetScript_detach_tolerant:
  assumes old: "script (shared_infos h this) = ScriptObject old"
    and none: "\<not> IsScript script_object"
    and idx: "0 \<le> n"
  shows "SetScript isolate h this script_object n reset =
     Inr \<lparr>scripts = (scripts h)(old := (scripts h old)\<lparr>shared_function_infos :=
              (let infos = shared_function_infos (scripts h old) in
               if n < int (length infos) \<and> infos ! nat n = Weak (SharedFunctionInfoObject this)
               then infos[nat n := Strong undefined_value] else infos)\<rparr>),
          shared_infos = (shared_infos h)(this :=
              (after_reset reset (shared_infos h this))\<lparr>script := script_object\<rparr>)\<rparr>"
proof -
  have ne: "script (shared_infos h this) \<noteq> script_object"
    using old none by auto
  have weak: "(GetHeapObjectIfWeak m = Some (SharedFunctionInfoObject this))
      = (m = Weak (SharedFunctionInfoObject this))" for m
    by (cases m) auto
  have same: "h\<lparr>shared_infos := f\<rparr> =
      \<lparr>scripts = (scripts h)(old := (scripts h old)\<lparr>shared_function_infos :=
          shared_function_infos (scripts h old)\<rparr>), shared_infos = f\<rparr>" for f
    by (cases h) simp
  show ?thesis
    using ne none old idx
    by (simp add: SetScript_def Let_def reset_step script_after_reset and_then_def DCHECK_def
        WeakFixedArray_Get_def WeakFixedArray_Set_def weak set_shared_function_infos_def same)
qed

text \<open>
  The scenario of the specification: the record at address 2 is detached from the unit at
  address 0 under position 3, whose slot refers to the record at address 3. The table is
  unchanged and no error is raised. Under position 1, whose slot refers to the record
  itself, the slot is cleared; under position 7, beyond the table, nothing is touched.
\<close>

theorem SetScript_detach_tolerant_witness:
  "script (shared_infos sample_heap 2) = ScriptObject 0
   \<and> \<not> IsScript undefined_value
   \<and> (0::int) \<le> 3
   \<and> SetScript sample_isolate sample_heap 2 undefined_value 3 False =
       Inr \<lparr>scripts = (\<lambda>a. sample_script),
            shared_infos = (shared_infos sample_heap)(2 := sample_record)\<rparr>
   \<and> SetScript sample_isolate sample_heap 2 undefined_value 7 False =
       Inr \<lparr>scripts = (\<lambda>a. sample_script),
            shared_infos = (shared_infos sample_heap)(2 := sample_record)\<rparr>
   \<and> SetScript sample_isolate sample_heap 2 undefined_value 1 False =
       Inr \<lparr>scripts = (\<lambda>a. sample_script)(0 := sample_script\<lparr>shared_function_infos :=
              [ClearedWeak, Strong undefined_value, Strong undefined_value,
               Weak (SharedFunctionInfoObject 3)]\<rparr>),
            shared_infos = (shared_infos sample_heap)(2 := sample_record)\<rparr>"
proof -
  have old: "script (shared_infos sample_heap 2) = ScriptObject 0"
    by (simp add: sample_heap_def)
  have none: "\<not> IsScript undefined_value" by simp
  have same: "(\<lambda>a. sample_script)(0 := sample_script) = (\<lambda>a. sample_script)"
    by auto
  have rec: "(after_reset False (shared_infos sample_heap a))\<lparr>script := undefined_value\<rparr>
      = sample_record" for a
    by (simp add: sample_heap_def after_reset_def sample_record_def)
  have tbl: "shared_function_infos sample_script =
      [ClearedWeak, Weak (SharedFunctionInfoObject 2), Strong undefined_value,
       Weak (SharedFunctionInfoObject 3)]"
    by (simp add: sample_script_def)
  have scr: "scripts sample_heap = (\<lambda>a. sample_script)"
    by (simp add: sample_heap_def)
  have keep: "sample_script\<lparr>shared_function_infos :=
       [ClearedWeak, Weak (SharedFunctionInfoObject 2), Strong undefined_value,
        Weak (SharedFunctionInfoObject 3)]\<rparr> = sample_script"
    by (simp add: sample_script_def)
  note t = SetScript_detach_tolerant [OF old none, of _ sample_isolate False]
  have p3: "SetScript sample_isolate sample_heap 2 undefined_value 3 False =
       Inr \<lparr>scripts = (\<lambda>a. sample_script),
            shared_infos = (shared_infos sample_heap)(2 := sample_record)\<rparr>"
    using t [of 3] by (simp add: rec tbl scr keep same Let_def)
  have p7: "SetScript sample_isolate sample_heap 2 undefined_value 7 False =
       Inr \<lparr>scripts = (\<lambda>a. sample_script),
            shared_infos = (shared_infos sample_heap)(2 := sample_record)\<rparr>"
    using t [of 7] by (simp add: rec tbl scr keep same Let_def)
  have p1: "SetScript sample_isolate sample_heap 2 undefined_value 1 False =
       Inr \<lparr>scripts = (\<lambda>a. sample_script)(0 := sample_script\<lparr>shared_function_infos :=
              [ClearedWeak, Strong undefined_value, Strong undefined_value,
               Weak (SharedFunctionInfoObject 3)]\<rparr>),
            shared_infos = (shared_infos sample_heap)(2 := sample_record)\<rparr>"
    using t [of 1] by (simp add: rec tbl scr Let_def)
  show ?thesis using old none p3 p7 p1 by simp
qed

text \<open>
  The statement of the specification, which covers every position id and every detach, fails
  twice on the record at address 2, associated with the unit at address 0. Under position
  id \<open>-1\<close> the guard of the detach branch, which tests the id against the table's length
  only, lets the id through, and the table is read outside its bounds, in the debug and in
  the release build. When the unit is replaced by the unit at address 1, the call enters the
  attach branch, whose assertion that the record has no unit stops the debug build.
\<close>

theorem SetScript_detach_counterexample:
  "script (shared_infos sample_heap 2) = ScriptObject 0
   \<and> SetScript sample_isolate sample_heap 2 undefined_value (- 1) False = Inl OUT_OF_BOUNDS
   \<and> SetScript (sample_isolate\<lparr>DEBUG := False\<rparr>) sample_heap 2 undefined_value (- 1) False
       = Inl OUT_OF_BOUNDS
   \<and> SetScript sample_isolate sample_heap 2 (ScriptObject 1) 3 False = Inl DCHECK_FAILED"
  by (simp add: SetScript_def sample_heap_def sample_record_def sample_isolate_def
      sample_script_def HasUncompiledDataWithPreparseData_def Let_def and_then_def DCHECK_def
      WeakFixedArray_Get_def)

section \<open>Expected property count\<close>

lemma uint8_of_capped: "0 \<le> v \<Longrightarrow> uint (word_of_int (min v 255) :: 8 word) = min v 255"
  by (simp add: uint_word_of_int min_def)

lemma estimate_in_range:
  assumes "0 \<le> property_estimate r literal" "property_estimate r literal < 65536"
  shows "uint (get_property_estimate_from_literal r literal) = property_estimate r literal"
proof -
  have "get_property_estimate_from_literal r literal = word_of_int (property_estimate r literal)"
    by (simp add: get_property_estimate_from_literal_def property_estimate_def Let_def)
  then show ?thesis
    using assms by (simp add: uint_word_of_int)
qed

lemma update_stores_capped:
  "uint (expected_nof_properties (UpdateExpectedNofPropertiesFromEstimate r literal))
     = min (uint (get_property_estimate_from_literal r literal)) 255"
proof -
  have nonneg: "0 \<le> uint (get_property_estimate_from_literal r literal)" by simp
  show ?thesis
    using uint8_of_capped [OF nonneg]
    by (simp add: UpdateExpectedNofPropertiesFromEstimate_def set_expected_nof_properties_def
        kMaxUInt8_def Let_def)
qed

lemma finalize_not_final:
  assumes "\<not> are_properties_final r" "\<not> (DEBUG isolate \<and> \<not> ShouldEagerCompile literal)"
  shows "\<exists>r'. UpdateAndFinalizeExpectedNofPropertiesFromEstimate isolate r literal = Inr r'
           \<and> are_properties_final r'
           \<and> uint (expected_nof_properties r')
               = min (if uint (get_property_estimate_from_literal r literal) = 0 then 2
                      else uint (get_property_estimate_from_literal r literal)) 255"
proof -
  have b: "uint (word_of_int (min (if uint (get_property_estimate_from_literal r literal) = 0 then 2
                      else uint (get_property_estimate_from_literal r literal)) 255) :: 8 word)
      = min (if uint (get_property_estimate_from_literal r literal) = 0 then 2
                      else uint (get_property_estimate_from_literal r literal)) 255"
    by (rule uint8_of_capped) simp
  show ?thesis
    using assms b
    by (auto simp: UpdateAndFinalizeExpectedNofPropertiesFromEstimate_def DCHECK_def Let_def
        set_expected_nof_properties_def kMaxUInt8_def)
qed

lemma finalize_final:
  assumes "are_properties_final r"
  shows "UpdateAndFinalizeExpectedNofPropertiesFromEstimate isolate r literal =
     (if DEBUG isolate \<and> \<not> ShouldEagerCompile literal then Inl DCHECK_FAILED else Inr r)"
  using assms by (simp add: UpdateAndFinalizeExpectedNofPropertiesFromEstimate_def DCHECK_def)

text \<open>
  C9, as amended. For every record and literal whose estimate (the literal's expected
  property count, plus the stored count for a class constructor) lies between 0 and 65535,
  every update of the expected property count stores that estimate capped at 255, the
  maximum of the 8-bit field, and never a wrapped value: the plain update stores the minimum
  of the estimate and 255, the finalizing update the same with an estimate of 0 replaced by
  2, and it sets the finalized bit. Once the finalized bit is set, a finalizing update
  changes nothing in the record: it returns the record as it is, or stops at its debug
  assertion.
\<close>

theorem property_count_saturates:
  "(0 \<le> property_estimate r literal \<and> property_estimate r literal < 65536 \<longrightarrow>
      uint (expected_nof_properties (UpdateExpectedNofPropertiesFromEstimate r literal))
        = min (property_estimate r literal) 255)
   \<and> (0 \<le> property_estimate r literal \<and> property_estimate r literal < 65536
        \<and> \<not> are_properties_final r \<and> \<not> (DEBUG isolate \<and> \<not> ShouldEagerCompile literal) \<longrightarrow>
        (\<exists>r'. UpdateAndFinalizeExpectedNofPropertiesFromEstimate isolate r literal = Inr r'
           \<and> are_properties_final r'
           \<and> uint (expected_nof_properties r')
               = min (if property_estimate r literal = 0 then 2
                      else property_estimate r literal) 255))
   \<and> (are_properties_final r \<and>
        UpdateAndFinalizeExpectedNofPropertiesFromEstimate isolate r literal = Inr r' \<longrightarrow> r' = r)
   \<and> (are_properties_final r \<longrightarrow>
        UpdateAndFinalizeExpectedNofPropertiesFromEstimate isolate r literal = Inr r
        \<or> UpdateAndFinalizeExpectedNofPropertiesFromEstimate isolate r literal = Inl DCHECK_FAILED)"
proof (intro conjI impI)
  assume "0 \<le> property_estimate r literal \<and> property_estimate r literal < 65536"
  then show "uint (expected_nof_properties (UpdateExpectedNofPropertiesFromEstimate r literal))
        = min (property_estimate r literal) 255"
    using update_stores_capped [of r literal] estimate_in_range [of r literal] by simp
next
  assume h: "0 \<le> property_estimate r literal \<and> property_estimate r literal < 65536
        \<and> \<not> are_properties_final r \<and> \<not> (DEBUG isolate \<and> \<not> ShouldEagerCompile literal)"
  then have e: "uint (get_property_estimate_from_literal r literal) = property_estimate r literal"
    using estimate_in_range [of r literal] by simp
  show "\<exists>r'. UpdateAndFinalizeExpectedNofPropertiesFromEstimate isolate r literal = Inr r'
           \<and> are_properties_final r'
           \<and> uint (expected_nof_properties r')
               = min (if property_estimate r literal = 0 then 2
                      else property_estimate r literal) 255"
    using finalize_not_final [of r isolate literal] h unfolding e by blast
next
  assume "are_properties_final r \<and>
        UpdateAndFinalizeExpectedNofPropertiesFromEstimate isolate r literal = Inr r'"
  then show "r' = r"
    using finalize_final [of r isolate literal] by (auto split: if_splits)
next
  assume "are_properties_final r"
  then show "UpdateAndFinalizeExpectedNofPropertiesFromEstimate isolate r literal = Inr r
        \<or> UpdateAndFinalizeExpectedNofPropertiesFromEstimate isolate r literal = Inl DCHECK_FAILED"
    using finalize_final [of r isolate literal] by auto
qed

text \<open>
  On the fresh record and a literal that expects 300 properties: both updates store 255; the
  finalizing one sets the bit, and a second finalizing update, with a literal that expects 9,
  returns the record unchanged.
\<close>

theorem property_count_saturates_witness:
  "0 \<le> property_estimate sample_record big_literal
   \<and> property_estimate sample_record big_literal < 65536
   \<and> \<not> are_properties_final sample_record
   \<and> \<not> (DEBUG sample_isolate \<and> \<not> ShouldEagerCompile big_literal)
   \<and> expected_nof_properties (UpdateExpectedNofPropertiesFromEstimate sample_record big_literal)
       = 255
   \<and> UpdateAndFinalizeExpectedNofPropertiesFromEstimate sample_isolate sample_record big_literal
       = Inr (sample_record\<lparr>expected_nof_properties := 255, are_properties_final := True\<rparr>)
   \<and> are_properties_final
        (sample_record\<lparr>expected_nof_properties := 255, are_properties_final := True\<rparr>)
   \<and> UpdateAndFinalizeExpectedNofPropertiesFromEstimate sample_isolate
        (sample_record\<lparr>expected_nof_properties := 255, are_properties_final := True\<rparr>)
        small_literal
       = Inr (sample_record\<lparr>expected_nof_properties := 255, are_properties_final := True\<rparr>)"
proof -
  let ?f = "sample_record\<lparr>expected_nof_properties := 255, are_properties_final := True\<rparr>"
  have pe: "property_estimate sample_record big_literal = 300"
    by (simp add: property_estimate_def sample_record_def big_literal_def)
  have nf: "\<not> are_properties_final sample_record" by (simp add: sample_record_def)
  have eager: "\<not> (DEBUG sample_isolate \<and> \<not> ShouldEagerCompile big_literal)"
    by (simp add: big_literal_def)
  have est: "get_property_estimate_from_literal sample_record big_literal = 300"
    by (simp add: get_property_estimate_from_literal_def sample_record_def big_literal_def)
  note t = property_count_saturates [of sample_record big_literal sample_isolate]
  have "uint (expected_nof_properties
      (UpdateExpectedNofPropertiesFromEstimate sample_record big_literal)) = 255"
    using t pe by simp
  then have u: "expected_nof_properties
      (UpdateExpectedNofPropertiesFromEstimate sample_record big_literal) = 255"
    by (simp add: word_uint_eq_iff)
  have fin: "UpdateAndFinalizeExpectedNofPropertiesFromEstimate sample_isolate sample_record
      big_literal = Inr ?f"
    using eager
    by (simp add: UpdateAndFinalizeExpectedNofPropertiesFromEstimate_def DCHECK_def est
        set_expected_nof_properties_def kMaxUInt8_def nf Let_def)
  have again: "UpdateAndFinalizeExpectedNofPropertiesFromEstimate sample_isolate ?f small_literal
      = Inr ?f"
    using property_count_saturates [of ?f small_literal sample_isolate]
    by (simp add: UpdateAndFinalizeExpectedNofPropertiesFromEstimate_def DCHECK_def
        small_literal_def)
  show ?thesis
    using pe nf eager u fin again by simp
qed

text \<open>
  The statement of the specification, which covers every update operation and every
  estimate, fails twice. The plain update does not read the finalized bit: on a record whose
  count is final and stored as 5, it stores 9. And the estimate passes through a
  \<^verbatim>\<open>uint16_t\<close> before the cap: for a literal that expects 65541 properties the plain update
  stores 5, not 255.
\<close>

theorem property_count_counterexample:
  "are_properties_final finalized_record
   \<and> expected_nof_properties finalized_record = 5
   \<and> expected_nof_properties
       (UpdateExpectedNofPropertiesFromEstimate finalized_record small_literal) = 9
   \<and> expected_property_count huge_literal = 65541
   \<and> expected_nof_properties
       (UpdateExpectedNofPropertiesFromEstimate sample_record huge_literal) = 5"
  by (simp add: finalized_record_def small_literal_def huge_literal_def sample_record_def
      UpdateExpectedNofPropertiesFromEstimate_def get_property_estimate_from_literal_def
      set_expected_nof_properties_def kMaxUInt8_def)

text \<open>
  The 16-bit conversion inside \<^verbatim>\<open>get_property_estimate_from_literal\<close> is applied before the
  cap: a literal that expects 65541 properties yields the estimate 5.
\<close>

lemma estimate_keeps_low_16_bits:
  "get_property_estimate_from_literal sample_record
     \<lparr>expected_property_count = 65541, ShouldEagerCompile = True\<rparr> = 5"
  by (simp add: get_property_estimate_from_literal_def sample_record_def)

end
